theory Spec2Isabelle
  imports Main
begin

section \<open>Strings and paths\<close>

text \<open>
  Go strings are byte sequences; they are modelled as \<open>string\<close> (a list of 8-bit
  characters). The functions of this section are the standard-library calls the
  program makes (\<open>strings.HasPrefix\<close>, \<open>strings.HasSuffix\<close>, \<open>strings.ToLower\<close>,
  \<open>strings.CutPrefix\<close>, \<open>regexp.ReplaceAllString\<close>, \<open>filepath.Ext\<close>,
  \<open>filepath.Clean\<close>, \<open>filepath.Join\<close>) on a system whose path separator is the
  slash.
\<close>

definition hasPrefix :: "string \<Rightarrow> string \<Rightarrow> bool" where
  "hasPrefix s prefix = (length prefix \<le> length s \<and> take (length prefix) s = prefix)"

definition hasSuffix :: "string \<Rightarrow> string \<Rightarrow> bool" where
  "hasSuffix s suffix =
     (length suffix \<le> length s \<and> drop (length s - length suffix) s = suffix)"

definition cutPrefix :: "string \<Rightarrow> string \<Rightarrow> string \<times> bool" where
  "cutPrefix s prefix =
     (if hasPrefix s prefix then (drop (length prefix) s, True) else (s, False))"

definition upperLetters :: string where
  "upperLetters = ''ABCDEFGHIJKLMNOPQRSTUVWXYZ''"

definition lowerLetters :: string where
  "lowerLetters = ''abcdefghijklmnopqrstuvwxyz''"

definition digits :: string where
  "digits = ''0123456789''"

text \<open>
  \<open>strings.ToLower\<close> on the ASCII letters, which is what Go computes for a string
  of ASCII bytes. A byte outside \<open>A-Z\<close> is kept; Go also lower-cases the letters
  beyond ASCII, two of them (the Kelvin sign and the dotted capital I) to an ASCII
  letter.
\<close>

definition lowerChar :: "char \<Rightarrow> char" where
  "lowerChar c =
     (case map_of (zip upperLetters lowerLetters) c of Some l \<Rightarrow> l | None \<Rightarrow> c)"

definition toLower :: "string \<Rightarrow> string" where
  "toLower s = map lowerChar s"

text \<open>The character class \<open>[a-z0-9]\<close>.\<close>

definition isLowerAlnum :: "char \<Rightarrow> bool" where
  "isLowerAlnum c = (c \<in> set (lowerLetters @ digits))"

text \<open>The characters \<open>[a-z0-9_]\<close>.\<close>

definition safeChars :: string where
  "safeChars = lowerLetters @ digits @ ''_''"

text \<open>
  \<open>regexp.MustCompile(`C+`).ReplaceAllString(s, "_")\<close> for a character class \<open>C\<close>,
  given as the predicate \<open>inClass\<close>: every maximal run of characters of the class
  becomes one underscore. The two classes of the program are the complement of
  \<open>[a-z0-9]\<close> and the underscore; a character beyond ASCII is a run of bytes that
  all lie in the first and none in the second, so runs of bytes and runs of
  characters are replaced alike.
\<close>

function replaceRuns :: "(char \<Rightarrow> bool) \<Rightarrow> string \<Rightarrow> string" where
  "replaceRuns inClass [] = []"
| "replaceRuns inClass (c # cs) =
     (if inClass c then CHR ''_'' # replaceRuns inClass (dropWhile inClass cs)
      else c # replaceRuns inClass cs)"
  by pat_completeness auto
termination
  by (relation "measure (\<lambda>(inClass, s). length s)")
     (auto simp: length_dropWhile_le less_Suc_eq_le)

text \<open>
  \<open>filepath.Ext\<close>: scanning from the end, the suffix that starts at the last dot of the
  last path element; empty when a slash (or the start) comes first. \<open>ext_scan\<close> walks
  the reversed path and keeps the suffix passed so far.
\<close>

fun ext_scan :: "string \<Rightarrow> string \<Rightarrow> string" where
  "ext_scan [] suffix = []"
| "ext_scan (c # front) suffix =
     (if c = CHR ''/'' then []
      else if c = CHR ''.'' then c # suffix
      else ext_scan front (c # suffix))"

definition filepath_Ext :: "string \<Rightarrow> string" where
  "filepath_Ext path = ext_scan (rev path) []"

text \<open>\<open>strings.Split(s, "/")\<close> and \<open>strings.Join(elems, "/")\<close>.\<close>

fun splitSlash :: "string \<Rightarrow> string list" where
  "splitSlash [] = [[]]"
| "splitSlash (c # cs) =
     (if c = CHR ''/'' then [] # splitSlash cs
      else (case splitSlash cs of [] \<Rightarrow> [[c]] | x # xs \<Rightarrow> (c # x) # xs))"

fun joinSlash :: "string list \<Rightarrow> string" where
  "joinSlash [] = []"
| "joinSlash [x] = x"
| "joinSlash (x # y # ys) = x @ CHR ''/'' # joinSlash (y # ys)"

text \<open>
  \<open>filepath.Clean\<close>, element by element: empty elements and \<open>.\<close> are dropped, \<open>..\<close>
  removes the element before it when there is one to remove, is kept at the front of
  a relative path and is dropped at the root. \<open>out\<close> holds the elements written so far.
\<close>

fun cleanLoop :: "bool \<Rightarrow> string list \<Rightarrow> string list \<Rightarrow> string list" where
  "cleanLoop rooted out [] = out"
| "cleanLoop rooted out (e # es) =
     (if e = [] \<or> e = ''.'' then cleanLoop rooted out es
      else if e = ''..'' then
        (if out \<noteq> [] \<and> last out \<noteq> ''..'' then cleanLoop rooted (butlast out) es
         else if \<not> rooted then cleanLoop rooted (out @ [''..'']) es
         else cleanLoop rooted out es)
      else cleanLoop rooted (out @ [e]) es)"

definition filepath_Clean :: "string \<Rightarrow> string" where
  "filepath_Clean path =
     (if path = [] then ''.''
      else
        (let rooted = hasPrefix path ''/'';
             out = cleanLoop rooted [] (splitSlash path);
             cleaned = (if rooted then ''/'' else []) @ joinSlash out
         in if cleaned = [] then ''.'' else cleaned))"

text \<open>
  \<open>filepath.Join\<close> of two elements: from the first non-empty element on, the elements
  are joined by a slash and the result is cleaned.
\<close>

definition filepath_Join :: "string \<Rightarrow> string \<Rightarrow> string" where
  "filepath_Join a b =
     (if a \<noteq> [] then filepath_Clean (a @ CHR ''/'' # b)
      else if b \<noteq> [] then filepath_Clean b
      else [])"

text \<open>\<open>filepath.Dir\<close>: the path up to its last slash, cleaned.\<close>

definition filepath_Dir :: "string \<Rightarrow> string" where
  "filepath_Dir path = filepath_Clean (rev (dropWhile (\<lambda>c. c \<noteq> CHR ''/'') (rev path)))"


section \<open>The document tree and link extraction\<close>

datatype nodeType =
  ErrorNode | TextNode | DocumentNode | ElementNode | CommentNode | DoctypeNode

datatype attribute = Attribute (Namespace: string) (Key: string) (Val: string)

text \<open>
  An \<open>html.Node\<close> with its children in sibling order (\<open>FirstChild\<close>, then
  \<open>NextSibling\<close> until nil).
\<close>

datatype node =
  Node (Type: nodeType) (Data: string) (Attr: "attribute list") (Children: "node list")

datatype panic = NilPointerDereference

text \<open>The loop over \<open>n.Attr\<close>; \<open>links\<close> is the slice the closure appends to.\<close>

fun hrefLoop :: "attribute list \<Rightarrow> string list \<Rightarrow> string list" where
  "hrefLoop [] links = links"
| "hrefLoop (attr # rest) links =
     hrefLoop rest (if Key attr = ''href'' then links @ [Val attr] else links)"

text \<open>The closure \<open>f\<close> of \<open>extractLinks\<close>, on a non-nil node.\<close>

fun traverse :: "node \<Rightarrow> string list \<Rightarrow> string list" where
  "traverse (Node t d attrs cs) links =
     fold traverse cs
       (if t = ElementNode \<and> d = ''a'' then hrefLoop attrs links else links)"

text \<open>
  \<open>extractLinks\<close> takes a pointer; \<open>f(n)\<close> reads \<open>n.Type\<close> first, which panics on the
  nil pointer.
\<close>

fun extractLinks :: "node option \<Rightarrow> panic + string list" where
  "extractLinks None = Inl NilPointerDereference"
| "extractLinks (Some n) = Inr (traverse n [])"

text \<open>
  The specification's words for link extraction: the nodes of the tree in depth-first
  (document) order, and for each anchor element the values of its \<open>href\<close> attributes
  in attribute order.
\<close>

fun preorder :: "node \<Rightarrow> node list" where
  "preorder (Node t d attrs cs) = Node t d attrs cs # concat (map preorder cs)"

definition hrefValues :: "node \<Rightarrow> string list" where
  "hrefValues n =
     (if Type n = ElementNode \<and> Data n = ''a''
      then map Val (filter (\<lambda>a. Key a = ''href'') (Attr n)) else [])"

definition documentOrderHrefs :: "node \<Rightarrow> string list" where
  "documentOrderHrefs n = concat (map hrefValues (preorder n))"


section \<open>Link filter and name sanitizer\<close>

text \<open>The loop of \<open>filterFiles\<close>; \<open>files\<close> is the slice built so far.\<close>

fun filterLoop :: "string list \<Rightarrow> string list \<Rightarrow> string list" where
  "filterLoop files [] = files"
| "filterLoop files (link # links) =
     (if hasPrefix link ''/'' \<or> hasSuffix link ''/'' then filterLoop files links
      else filterLoop (files @ [link]) links)"

definition filterFiles :: "string list \<Rightarrow> string list" where
  "filterFiles links = filterLoop [] links"

definition getFileExtension :: "string \<Rightarrow> string" where
  "getFileExtension path = filepath_Ext path"

text \<open>
  \<open>urlToFilename\<close> lower-cases its argument and works on the result from then on;
  \<open>sanitizeLowered\<close> is the body of the function after that first statement, so that
  it can be stated for every string the lower-casing may return.
\<close>

definition sanitizeLowered :: "string \<Rightarrow> string" where
  "sanitizeLowered lower =
     (let safe1 = replaceRuns (\<lambda>c. \<not> isLowerAlnum c) lower;
          safe2 = replaceRuns (\<lambda>c. c = CHR ''_'') safe1;
          safe3 = (case cutPrefix safe2 ''_'' of (after, ok) \<Rightarrow> if ok then after else safe2)
      in if getFileExtension safe3 \<noteq> ''.pdf'' then safe3 @ ''.pdf'' else safe3)"

definition urlToFilename :: "string \<Rightarrow> string" where
  "urlToFilename rawURL = (let lower = toLower rawURL in sanitizeLowered lower)"


section \<open>The environment: file system, network and output\<close>

text \<open>
  The file system maps a cleaned path to what is there. The working directory and the
  root always exist. A real file system has nothing below a path that is not a
  directory; \<open>os_Mkdir\<close> and \<open>os_Create\<close> keep it so by checking the parent.
\<close>

datatype entry = RegularFile string | Directory

type_synonym filesystem = "string \<rightharpoonup> entry"

datatype errno = ENOENT | EEXIST | EISDIR | ENOTDIR

datatype pathError = PathError string string errno

fun errnoString :: "errno \<Rightarrow> string" where
  "errnoString ENOENT = ''no such file or directory''"
| "errnoString EEXIST = ''file exists''"
| "errnoString EISDIR = ''is a directory''"
| "errnoString ENOTDIR = ''not a directory''"

fun errorString :: "pathError \<Rightarrow> string" where
  "errorString (PathError opName path e) = opName @ '' '' @ path @ '': '' @ errnoString e"

definition lookupClean :: "filesystem \<Rightarrow> string \<Rightarrow> entry option" where
  "lookupClean fs p = (if p = ''.'' \<or> p = ''/'' then Some Directory else fs p)"

text \<open>
  \<open>os.Stat\<close>; the empty path names nothing, and a path that ends in a slash names a
  directory or nothing.
\<close>

definition os_Stat :: "filesystem \<Rightarrow> string \<Rightarrow> pathError + entry" where
  "os_Stat fs path =
     (if path = [] then Inl (PathError ''stat'' path ENOENT)
      else
        (case lookupClean fs (filepath_Clean path) of
           Some Directory \<Rightarrow> Inr Directory
         | Some (RegularFile content) \<Rightarrow>
             if hasSuffix path ''/'' then Inl (PathError ''stat'' path ENOTDIR)
             else Inr (RegularFile content)
         | None \<Rightarrow> Inl (PathError ''stat'' path ENOENT)))"

definition os_Mkdir :: "string \<Rightarrow> filesystem \<Rightarrow> pathError + filesystem" where
  "os_Mkdir path fs =
     (if path = [] then Inl (PathError ''mkdir'' path ENOENT)
      else
        (let p = filepath_Clean path in
         case lookupClean fs p of
           Some existing \<Rightarrow> Inl (PathError ''mkdir'' path EEXIST)
         | None \<Rightarrow>
             (case lookupClean fs (filepath_Dir p) of
                Some Directory \<Rightarrow> Inr (fs(p \<mapsto> Directory))
              | Some (RegularFile content) \<Rightarrow> Inl (PathError ''mkdir'' path ENOTDIR)
              | None \<Rightarrow> Inl (PathError ''mkdir'' path ENOENT))))"

text \<open>\<open>os.Create\<close> opens for writing, creating the file or truncating it.\<close>

definition os_Create :: "string \<Rightarrow> filesystem \<Rightarrow> pathError + filesystem" where
  "os_Create path fs =
     (if path = [] then Inl (PathError ''open'' path ENOENT)
      else
        (let p = filepath_Clean path in
         case lookupClean fs (filepath_Dir p) of
           Some Directory \<Rightarrow>
             (case lookupClean fs p of
                Some Directory \<Rightarrow> Inl (PathError ''open'' path EISDIR)
              | Some (RegularFile content) \<Rightarrow> Inr (fs(p \<mapsto> RegularFile []))
              | None \<Rightarrow> Inr (fs(p \<mapsto> RegularFile [])))
         | Some (RegularFile content) \<Rightarrow> Inl (PathError ''open'' path ENOTDIR)
         | None \<Rightarrow> Inl (PathError ''open'' path ENOENT)))"

text \<open>
  \<open>os.MkdirAll\<close>: nothing to do for a directory, an error for another file; otherwise
  the parent (the path without its trailing slashes and last element) is made first,
  then the directory itself.
\<close>

definition mkdirAllParent :: "string \<Rightarrow> string" where
  "mkdirAllParent path =
     rev (dropWhile (\<lambda>c. c \<noteq> CHR ''/'') (dropWhile (\<lambda>c. c = CHR ''/'') (rev path)))"

definition mkdirAllFinish ::
  "string \<Rightarrow> pathError option \<times> filesystem \<Rightarrow> pathError option \<times> filesystem" where
  "mkdirAllFinish path parentResult =
     (case parentResult of
        (Some err, fs1) \<Rightarrow> (Some err, fs1)
      | (None, fs1) \<Rightarrow>
          (case os_Mkdir path fs1 of
             Inr fs2 \<Rightarrow> (None, fs2)
           | Inl err \<Rightarrow>
               (case os_Stat fs1 path of
                  Inr Directory \<Rightarrow> (None, fs1)
                | Inr (RegularFile content) \<Rightarrow> (Some err, fs1)
                | Inl err1 \<Rightarrow> (Some err, fs1))))"

function os_MkdirAll :: "string \<Rightarrow> filesystem \<Rightarrow> pathError option \<times> filesystem" where
  "os_MkdirAll path fs =
     (case os_Stat fs path of
        Inr info \<Rightarrow>
          (if info = Directory then (None, fs)
           else (Some (PathError ''mkdir'' path ENOTDIR), fs))
      | Inl err \<Rightarrow>
          mkdirAllFinish path
            (if mkdirAllParent path \<noteq> [] then os_MkdirAll (mkdirAllParent path) fs
             else (None, fs)))"
  by pat_completeness auto
termination
proof (relation "measure (\<lambda>(path, fs). length path)")
  show "wf (measure (\<lambda>(path, fs :: filesystem). length path))"
    by simp
next
  fix path :: string and fs :: filesystem and err :: pathError
  assume parent: "mkdirAllParent path \<noteq> []"
  have "length (mkdirAllParent path) < length path"
  proof (cases "rev path")
    case Nil
    then show ?thesis using parent by (simp add: mkdirAllParent_def)
  next
    case (Cons c cs)
    have a: "length (dropWhile (\<lambda>c. c \<noteq> CHR ''/'') (dropWhile (\<lambda>c. c = CHR ''/'') cs))
               \<le> length cs"
      by (meson length_dropWhile_le order_trans)
    have b: "length (dropWhile (\<lambda>c. c \<noteq> CHR ''/'') cs) \<le> length cs"
      by (rule length_dropWhile_le)
    have "length path = Suc (length cs)"
      using Cons by (metis length_Cons length_rev)
    then show ?thesis
      using a b Cons by (cases "c = CHR ''/''") (simp_all add: mkdirAllParent_def)
  qed
  then show "((mkdirAllParent path, fs), (path, fs)) \<in> measure (\<lambda>(path, fs). length path)"
    by simp
qed

declare os_MkdirAll.simps [simp del]

text \<open>
  An HTTP response: its status, the bytes its body delivers, and the read error that
  ends the body early, if any.
\<close>

record response =
  Status :: string
  StatusCode :: nat
  Body :: string
  BodyError :: "string option"

text \<open>A request is its URL and the headers the program sets.\<close>

type_synonym request = "string \<times> (string \<times> string) list"

text \<open>
  What the program cannot decide: whether \<open>http.NewRequest\<close> accepts a URL (the cause
  of the failure otherwise), what the HTTP client answers to a request after the
  requests made before it (the cause of the failure, or a response), and the tree
  \<open>html.Parse\<close> builds from a body.
\<close>

record env =
  newRequestError :: "string \<Rightarrow> string option"
  clientDo :: "request list \<Rightarrow> request \<Rightarrow> string + response"
  htmlParse :: "string \<Rightarrow> node"

text \<open>
  A line of output: of the standard logger (which writes it to standard error after a
  time stamp), of standard output, or of standard error.
\<close>

datatype event = Logged string | Stdout string | Stderr string

record world =
  files :: filesystem
  requests :: "request list"
  printed :: "event list"

definition emit :: "event \<Rightarrow> world \<Rightarrow> world" where
  "emit ev w = w\<lparr>printed := printed w @ [ev]\<rparr>"

text \<open>\<open>http.Get\<close> and \<open>client.Do\<close>: the request is made and recorded.\<close>

definition sendRequest :: "env \<Rightarrow> request \<Rightarrow> world \<Rightarrow> (string + response) \<times> world" where
  "sendRequest e req w = (clientDo e (requests w) req, w\<lparr>requests := requests w @ [req]\<rparr>)"

definition http_Get :: "env \<Rightarrow> string \<Rightarrow> world \<Rightarrow> (string + response) \<times> world" where
  "http_Get e url w = sendRequest e (url, []) w"

text \<open>\<open>html.Parse\<close> fails only when reading the body fails.\<close>

definition html_Parse :: "env \<Rightarrow> response \<Rightarrow> string + node" where
  "html_Parse e resp =
     (case BodyError resp of Some err \<Rightarrow> Inl err | None \<Rightarrow> Inr (htmlParse e (Body resp)))"

text \<open>
  \<open>io.Copy\<close> into the file just created at \<open>path\<close>: the bytes delivered are written,
  also when the body then fails.
\<close>

definition io_Copy :: "string \<Rightarrow> response \<Rightarrow> filesystem \<Rightarrow> string option \<times> filesystem" where
  "io_Copy path resp fs = (BodyError resp, fs(filepath_Clean path \<mapsto> RegularFile (Body resp)))"


section \<open>The program\<close>

text \<open>
  The source holds two variants of the program. Both have the same \<open>fetchHTML\<close>,
  \<open>extractLinks\<close>, \<open>filterFiles\<close> and \<open>fileExists\<close>; the first downloads under the raw
  link, the second under the sanitized name and with a longer list of extensions. What
  differs carries the suffix \<open>_v1\<close> or \<open>_v2\<close>. A Go \<open>error\<close> result is the message
  of the error, \<open>None\<close> for nil.
\<close>

definition browserHeaders :: "(string \<times> string) list" where
  "browserHeaders =
     [(''User-Agent'', ''Mozilla/5.0 (compatible; MyGoScraper/1.0)''),
      (''Accept'', ''text/html'')]"

definition fetchHTML :: "env \<Rightarrow> string \<Rightarrow> world \<Rightarrow> node option \<times> world" where
  "fetchHTML e url w =
     (case newRequestError e url of
        Some err \<Rightarrow>
          (None, emit (Logged (''Failed to create request for '' @ url @ '': '' @ err)) w)
      | None \<Rightarrow>
          (case sendRequest e (url, browserHeaders) w of
             (Inl err, w1) \<Rightarrow>
               (None, emit (Logged (''HTTP request to '' @ url @ '' failed: '' @ err)) w1)
           | (Inr resp, w1) \<Rightarrow>
               if StatusCode resp \<noteq> 200
               then (None, emit (Logged (''Failed to fetch '' @ url @ '': '' @ Status resp)) w1)
               else
                 (case html_Parse e resp of
                    Inl err \<Rightarrow>
                      (None,
                       emit (Logged (''Failed to parse HTML from '' @ url @ '': '' @ err)) w1)
                  | Inr n \<Rightarrow> (Some n, w1))))"

definition fileExists :: "filesystem \<Rightarrow> string \<Rightarrow> bool" where
  "fileExists fs filename =
     (case os_Stat fs filename of
        Inl err \<Rightarrow> False
      | Inr info \<Rightarrow> info \<noteq> Directory)"

definition directoryExists :: "filesystem \<Rightarrow> string \<Rightarrow> bool" where
  "directoryExists fs path =
     (case os_Stat fs path of
        Inl err \<Rightarrow> False
      | Inr directory \<Rightarrow> directory = Directory)"

definition createDirectory :: "string \<Rightarrow> world \<Rightarrow> world" where
  "createDirectory path w =
     (case os_Mkdir path (files w) of
        Inl err \<Rightarrow> emit (Logged (errorString err)) w
      | Inr fs1 \<Rightarrow> w\<lparr>files := fs1\<rparr>)"

definition allowedExts_v1 :: "string list" where
  "allowedExts_v1 =
     [''.asc'', ''.asc-ma1'', ''.asc-pierov'', ''.apk'', ''.bspatch'', ''.dmg'', ''.exe'',
      ''.gz'', ''.idsig'', ''.mar'', ''.txt'', ''.zip'', ''.xz'', ''.doc'']"

definition allowedExtensions_v2 :: "string list" where
  "allowedExtensions_v2 =
     [''.asc'', ''.asc-ma1'', ''.asc-pierov'', ''.apk'', ''.bspatch'',
      ''.dmg'', ''.exe'', ''.gz'', ''.idsig'', ''.mar'',
      ''.txt'', ''.zip'', ''.xz'', ''.doc'', ''.docx'', ''.pdf'',
      ''.xls'', ''.xlsx'', ''.ppt'', ''.pptx'', ''.csv'',
      ''.jpg'', ''.jpeg'', ''.png'', ''.gif'', ''.bmp'']"

text \<open>The loop that sets the flag \<open>allowed\<close> and breaks at the first match.\<close>

fun extLoop :: "string \<Rightarrow> string list \<Rightarrow> bool" where
  "extLoop ext [] = False"
| "extLoop ext (e # es) = (if ext = e then True else extLoop ext es)"

definition downloadFile_v1 ::
  "env \<Rightarrow> string \<Rightarrow> string \<Rightarrow> string \<Rightarrow> world \<Rightarrow> string option \<times> world" where
  "downloadFile_v1 e baseURL fileName outDir w =
     (let ext = toLower (filepath_Ext fileName) in
      if \<not> extLoop ext allowedExts_v1
      then (None,
            emit (Logged (''Skipping '' @ fileName @ '' (disallowed extension '' @ ext @ '')'')) w)
      else
        (let outPath = filepath_Join outDir fileName in
         if fileExists (files w) outPath
         then (None,
               emit (Logged (''File '' @ outPath @ '' already exists, skipping download.'')) w)
         else
           (let url = baseURL @ fileName in
            case http_Get e url w of
              (Inl err, w1) \<Rightarrow> (Some (''failed to download '' @ url @ '': '' @ err), w1)
            | (Inr resp, w1) \<Rightarrow>
                (case os_MkdirAll outDir (files w1) of
                   (Some err, fs2) \<Rightarrow>
                     (Some (''failed to create directory '' @ outDir @ '': '' @ errorString err),
                      w1\<lparr>files := fs2\<rparr>)
                 | (None, fs2) \<Rightarrow>
                     (case os_Create outPath fs2 of
                        Inl err \<Rightarrow>
                          (Some (''failed to create file '' @ outPath @ '': '' @ errorString err),
                           w1\<lparr>files := fs2\<rparr>)
                      | Inr fs3 \<Rightarrow>
                          (case io_Copy outPath resp fs3 of
                             (Some err, fs4) \<Rightarrow>
                               (Some (''error saving '' @ outPath @ '': '' @ err),
                                w1\<lparr>files := fs4\<rparr>)
                           | (None, fs4) \<Rightarrow>
                               (None,
                                emit (Stdout (''Downloaded '' @ fileName))
                                  (w1\<lparr>files := fs4\<rparr>))))))))"

definition downloadFile_v2 ::
  "env \<Rightarrow> string \<Rightarrow> string \<Rightarrow> string \<Rightarrow> world \<Rightarrow> string option \<times> world" where
  "downloadFile_v2 e baseURL fileName outputDirectory w =
     (let fileExtension = toLower (filepath_Ext fileName) in
      if \<not> extLoop fileExtension allowedExtensions_v2
      then (None,
            emit (Logged (''Skipping '' @ fileName @ '' (disallowed extension ''
                            @ fileExtension @ '')'')) w)
      else
        (let localFilePath = filepath_Join outputDirectory fileName in
         if fileExists (files w) localFilePath
         then (None,
               emit (Logged (''File '' @ localFilePath
                               @ '' already exists, skipping download.'')) w)
         else
           (let downloadURL = baseURL @ fileName in
            case http_Get e downloadURL w of
              (Inl requestError, w1) \<Rightarrow>
                (Some (''failed to download '' @ downloadURL @ '': '' @ requestError), w1)
            | (Inr resp, w1) \<Rightarrow>
                (case os_Create localFilePath (files w1) of
                   Inl fileCreateError \<Rightarrow>
                     (Some (''failed to create file '' @ localFilePath @ '': ''
                              @ errorString fileCreateError), w1)
                 | Inr fs2 \<Rightarrow>
                     (case io_Copy localFilePath resp fs2 of
                        (Some copyError, fs3) \<Rightarrow>
                          (Some (''error saving '' @ localFilePath @ '': '' @ copyError),
                           w1\<lparr>files := fs3\<rparr>)
                      | (None, fs3) \<Rightarrow>
                          (None,
                           emit (Stdout (''Downloaded '' @ fileName))
                             (w1\<lparr>files := fs3\<rparr>)))))))"

text \<open>What the loop of \<open>main\<close> does with the result of one download.\<close>

definition report :: "string option \<times> world \<Rightarrow> world" where
  "report r = (case r of (Some err, w) \<Rightarrow> emit (Stderr err) w | (None, w) \<Rightarrow> w)"

fun downloadLoop_v1 :: "env \<Rightarrow> string \<Rightarrow> string \<Rightarrow> string list \<Rightarrow> world \<Rightarrow> world" where
  "downloadLoop_v1 e baseURL remoteFolder [] w = w"
| "downloadLoop_v1 e baseURL remoteFolder (file # rest) w =
     downloadLoop_v1 e baseURL remoteFolder rest
       (report (downloadFile_v1 e baseURL file remoteFolder w))"

fun downloadLoop_v2 :: "env \<Rightarrow> string \<Rightarrow> string \<Rightarrow> string list \<Rightarrow> world \<Rightarrow> world" where
  "downloadLoop_v2 e baseURL remoteFolder [] w = w"
| "downloadLoop_v2 e baseURL remoteFolder (url # rest) w =
     downloadLoop_v2 e baseURL remoteFolder rest
       (report (downloadFile_v2 e baseURL (urlToFilename url) remoteFolder w))"

text \<open>
  How the process ends: by returning from \<open>main\<close> (status 0), by \<open>log.Fatalln\<close>
  (status 1), or by a run-time panic.
\<close>

datatype exit = Returned | Fatal | Panicked panic

definition baseURL_const :: string where
  "baseURL_const = ''https://www.birschindustries.com/MSDS%20Sheets/''"

definition main_v1 :: "env \<Rightarrow> world \<Rightarrow> exit \<times> world" where
  "main_v1 e w =
     (let baseURL = baseURL_const in
      case fetchHTML e baseURL w of
        (n, w1) \<Rightarrow>
          (case extractLinks n of
             Inl p \<Rightarrow> (Panicked p, w1)
           | Inr links \<Rightarrow>
               (let fileList = filterFiles links;
                    remoteFolder = ''Assets/''
                in case os_MkdirAll remoteFolder (files w1) of
                     (Some err, fs2) \<Rightarrow>
                       (Fatal,
                        emit (Logged (''Failed to create output directory: '' @ errorString err))
                          (w1\<lparr>files := fs2\<rparr>))
                   | (None, fs2) \<Rightarrow>
                       (Returned,
                        downloadLoop_v1 e baseURL remoteFolder fileList
                          (w1\<lparr>files := fs2\<rparr>)))))"

definition main_v2 :: "env \<Rightarrow> world \<Rightarrow> exit \<times> world" where
  "main_v2 e w =
     (let baseURL = baseURL_const in
      case fetchHTML e baseURL w of
        (n, w1) \<Rightarrow>
          (case extractLinks n of
             Inl p \<Rightarrow> (Panicked p, w1)
           | Inr links \<Rightarrow>
               (let links1 = filterFiles links;
                    remoteFolder = ''Assets/'';
                    w2 = (if \<not> directoryExists (files w1) remoteFolder
                          then createDirectory remoteFolder w1 else w1)
                in (Returned, downloadLoop_v2 e baseURL remoteFolder links1 w2))))"


section \<open>Example environments\<close>

text \<open>
  Concrete environments and worlds, on which the program is evaluated below: a network
  that refuses every connection, a server that answers every request with status 404,
  and a server that answers every request with status 200 and a body that parses to a
  page of three links.
\<close>

definition emptyPage :: node where
  "emptyPage = Node DocumentNode [] [] []"

definition listingPage :: node where
  "listingPage =
     Node DocumentNode [] []
       [Node ElementNode ''html'' []
          [Node ElementNode ''a'' [Attribute [] ''href'' ''/MSDS%20Sheets/''] [],
           Node ElementNode ''a'' [Attribute [] ''href'' ''a.pdf''] [],
           Node ElementNode ''a'' [Attribute [] ''href'' ''b.txt''] []]]"

definition offline :: env where
  "offline =
     \<lparr>newRequestError = (\<lambda>url. None),
      clientDo = (\<lambda>history req. Inl ''connection refused''),
      htmlParse = (\<lambda>body. emptyPage)\<rparr>"

definition notFound :: env where
  "notFound =
     \<lparr>newRequestError = (\<lambda>url. None),
      clientDo = (\<lambda>history req.
        Inr \<lparr>Status = ''404 Not Found'', StatusCode = 404, Body = [], BodyError = None\<rparr>),
      htmlParse = (\<lambda>body. emptyPage)\<rparr>"

definition listing :: env where
  "listing =
     \<lparr>newRequestError = (\<lambda>url. None),
      clientDo = (\<lambda>history req.
        Inr \<lparr>Status = ''200 OK'', StatusCode = 200, Body = ''data'', BodyError = None\<rparr>),
      htmlParse = (\<lambda>body. listingPage)\<rparr>"

text \<open>
  A server that answers every request with status 404 and an error page as body, and
  a server whose bodies break off with a read error after two bytes.
\<close>

definition errorPage :: env where
  "errorPage =
     \<lparr>newRequestError = (\<lambda>url. None),
      clientDo = (\<lambda>history req.
        Inr \<lparr>Status = ''404 Not Found'', StatusCode = 404, Body = ''404 page not found'',
             BodyError = None\<rparr>),
      htmlParse = (\<lambda>body. emptyPage)\<rparr>"

definition truncating :: env where
  "truncating =
     \<lparr>newRequestError = (\<lambda>url. None),
      clientDo = (\<lambda>history req.
        Inr \<lparr>Status = ''200 OK'', StatusCode = 200, Body = ''da'',
             BodyError = Some ''unexpected EOF''\<rparr>),
      htmlParse = (\<lambda>body. emptyPage)\<rparr>"

definition emptyWorld :: world where
  "emptyWorld = \<lparr>files = Map.empty, requests = [], printed = []\<rparr>"

text \<open>A working directory that holds the empty output directory.\<close>

definition readyWorld :: world where
  "readyWorld = \<lparr>files = [''Assets'' \<mapsto> Directory], requests = [], printed = []\<rparr>"

text \<open>A working directory in which a regular file has the name of the output directory.\<close>

definition blockedWorld :: world where
  "blockedWorld =
     \<lparr>files = [''Assets'' \<mapsto> RegularFile []], requests = [], printed = []\<rparr>"

text \<open>An output directory in which a directory has the name of a download.\<close>

definition occupiedWorld :: world where
  "occupiedWorld =
     \<lparr>files = [''Assets'' \<mapsto> Directory, ''Assets/b.txt'' \<mapsto> Directory],
      requests = [], printed = []\<rparr>"


section \<open>The link filter\<close>

lemma hasPrefix_slash: "hasPrefix s ''/'' = (s \<noteq> [] \<and> hd s = CHR ''/'')"
  by (cases s) (auto simp: hasPrefix_def)

lemma hasSuffix_slash: "hasSuffix s ''/'' = (s \<noteq> [] \<and> last s = CHR ''/'')"
proof (cases s rule: rev_cases)
  case Nil
  then show ?thesis by (simp add: hasSuffix_def)
next
  case (snoc ys y)
  then show ?thesis by (simp add: hasSuffix_def)
qed

lemma filterLoop_filter:
  "filterLoop acc links =
     acc @ filter (\<lambda>l. \<not> (hasPrefix l ''/'' \<or> hasSuffix l ''/'')) links"
  by (induction links arbitrary: acc) simp_all

text \<open>
  C5. The filtered list is the input list without the links whose first or last
  character is a slash: a link is kept iff it neither starts nor ends with \<open>/\<close>, and
  the kept links stand in their order, as often as they occurred.
\<close>

theorem filterFiles_keeps_exactly:
  "filterFiles links =
     filter (\<lambda>link. \<not> (link \<noteq> [] \<and> hd link = CHR ''/'')
                  \<and> \<not> (link \<noteq> [] \<and> last link = CHR ''/'')) links"
  by (simp add: filterFiles_def filterLoop_filter hasPrefix_slash hasSuffix_slash)

theorem filterFiles_keeps_exactly_witness:
  "filterFiles [''a.pdf'', ''/b.pdf'', ''dir/'', ''c.PDF'', ''a.pdf'']
     = [''a.pdf'', ''c.PDF'', ''a.pdf'']"
  using filterFiles_keeps_exactly [of "[''a.pdf'', ''/b.pdf'', ''dir/'', ''c.PDF'', ''a.pdf'']"]
  by simp


section \<open>Link extraction\<close>

lemma hrefLoop_eq:
  "hrefLoop attrs links = links @ map Val (filter (\<lambda>a. Key a = ''href'') attrs)"
  by (induction attrs arbitrary: links) simp_all

lemma concat_map_concat:
  "concat (map f (concat xss)) = concat (map (\<lambda>xs. concat (map f xs)) xss)"
  by (induction xss) simp_all

lemma documentOrderHrefs_Node:
  "documentOrderHrefs (Node t d attrs cs) =
     hrefValues (Node t d attrs cs) @ concat (map documentOrderHrefs cs)"
proof -
  have eq: "documentOrderHrefs = (\<lambda>x. concat (map hrefValues (preorder x)))"
    by (simp add: fun_eq_iff documentOrderHrefs_def)
  show ?thesis
    unfolding eq by (simp add: concat_map_concat comp_def)
qed

lemma fold_traverse:
  assumes "\<And>c links. c \<in> set cs \<Longrightarrow> traverse c links = links @ documentOrderHrefs c"
  shows "fold traverse cs links = links @ concat (map documentOrderHrefs cs)"
  using assms by (induction cs arbitrary: links) simp_all

lemma traverse_eq: "traverse n links = links @ documentOrderHrefs n"
proof (induction n arbitrary: links)
  case (Node t d attrs cs)
  have "fold traverse cs acc = acc @ concat (map documentOrderHrefs cs)" for acc
    by (rule fold_traverse) (rule Node.IH)
  then show ?case
    by (simp add: documentOrderHrefs_Node hrefValues_def hrefLoop_eq)
qed

text \<open>
  C7. On a document, link extraction returns, for the nodes of the tree in depth-first
  document order, the values of all \<open>href\<close> attributes of every anchor element, each
  occurrence once and in attribute order.
\<close>

theorem extractLinks_document_order:
  "extractLinks (Some n) = Inr (documentOrderHrefs n)"
  by (simp add: traverse_eq)

theorem extractLinks_document_order_witness:
  "extractLinks (Some
     (Node DocumentNode [] []
        [Node ElementNode ''a'' [Attribute [] ''href'' ''x.pdf''] [Node TextNode ''x'' [] []],
         Node ElementNode ''a'' [Attribute [] ''href'' ''/skip/''] [],
         Node ElementNode ''div'' [Attribute [] ''href'' ''no.pdf'']
           [Node ElementNode ''a''
              [Attribute [] ''href'' ''n1.pdf'', Attribute [] ''id'' ''k'',
               Attribute [] ''href'' ''n2.pdf''] []],
         Node TextNode ''a'' [Attribute [] ''href'' ''text.pdf''] []]))
   = Inr [''x.pdf'', ''/skip/'', ''n1.pdf'', ''n2.pdf'']"
  using extractLinks_document_order [of
    "Node DocumentNode [] []
        [Node ElementNode ''a'' [Attribute [] ''href'' ''x.pdf''] [Node TextNode ''x'' [] []],
         Node ElementNode ''a'' [Attribute [] ''href'' ''/skip/''] [],
         Node ElementNode ''div'' [Attribute [] ''href'' ''no.pdf'']
           [Node ElementNode ''a''
              [Attribute [] ''href'' ''n1.pdf'', Attribute [] ''id'' ''k'',
               Attribute [] ''href'' ''n2.pdf''] []],
         Node TextNode ''a'' [Attribute [] ''href'' ''text.pdf''] []]"]
  by (simp add: documentOrderHrefs_def hrefValues_def)


section \<open>The name sanitizer\<close>

lemma replaceRuns_set:
  "set (replaceRuns P s) \<subseteq> {c \<in> set s. \<not> P c} \<union> {CHR ''_''}"
proof (induction P s rule: replaceRuns.induct)
  case (1 P)
  then show ?case by simp
next
  case (2 P c cs)
  show ?case
  proof (cases "P c")
    case True
    with 2 have "set (replaceRuns P (dropWhile P cs))
                  \<subseteq> {c \<in> set (dropWhile P cs). \<not> P c} \<union> {CHR ''_''}"
      by simp
    moreover have "set (dropWhile P cs) \<subseteq> set cs"
      by (auto dest: set_dropWhileD)
    ultimately show ?thesis using True by auto
  next
    case False
    with 2 show ?thesis by auto
  qed
qed

lemma ext_scan_no_dot: "CHR ''.'' \<notin> set xs \<Longrightarrow> ext_scan xs acc = []"
  by (induction xs arbitrary: acc) auto

lemma splitSlash_no_slash: "CHR ''/'' \<notin> set s \<Longrightarrow> splitSlash s = [s]"
  by (induction s) auto

lemma safeChars_no_dot: "CHR ''.'' \<notin> set safeChars"
  by (simp add: safeChars_def lowerLetters_def digits_def)

lemma safeChars_no_slash: "CHR ''/'' \<notin> set safeChars"
  by (simp add: safeChars_def lowerLetters_def digits_def)

text \<open>
  The extension check of the sanitizer never finds \<open>.pdf\<close>: every dot has become an
  underscore before it, so the suffix is appended to every name.
\<close>

lemma sanitized_body:
  "\<exists>body. sanitizeLowered lower = body @ ''.pdf'' \<and> set body \<subseteq> set safeChars"
proof -
  let ?safe1 = "replaceRuns (\<lambda>c. \<not> isLowerAlnum c) lower"
  let ?safe2 = "replaceRuns (\<lambda>c. c = CHR ''_'') ?safe1"
  let ?safe3 = "case cutPrefix ?safe2 ''_'' of (after, ok) \<Rightarrow> if ok then after else ?safe2"
  have s1: "set ?safe1 \<subseteq> set safeChars"
    using replaceRuns_set [of "\<lambda>c. \<not> isLowerAlnum c" lower]
    by (auto simp: safeChars_def isLowerAlnum_def)
  have s2: "set ?safe2 \<subseteq> set safeChars"
    using replaceRuns_set [of "\<lambda>c. c = CHR ''_''" ?safe1] s1
    by (auto simp: safeChars_def)
  have "set ?safe3 \<subseteq> set ?safe2"
    by (auto simp: cutPrefix_def dest: in_set_dropD)
  with s2 have s3: "set ?safe3 \<subseteq> set safeChars" by blast
  then have "CHR ''.'' \<notin> set ?safe3"
    using safeChars_no_dot by blast
  then have "getFileExtension ?safe3 = []"
    by (simp add: getFileExtension_def filepath_Ext_def ext_scan_no_dot)
  then have "sanitizeLowered lower = ?safe3 @ ''.pdf''"
    by (simp add: sanitizeLowered_def Let_def)
  with s3 show ?thesis by blast
qed

lemma ext_of_pdf: "filepath_Ext (body @ ''.pdf'') = ''.pdf''"
  by (simp add: filepath_Ext_def)

lemma allowed_pdf: "extLoop (toLower ''.pdf'') allowedExtensions_v2"
  by (simp add: toLower_def lowerChar_def upperLetters_def lowerLetters_def
        allowedExtensions_v2_def)

lemma no_dotdot:
  assumes "CHR ''.'' \<notin> set body"
  shows "\<not> (\<exists>u v. body @ ''.pdf'' = u @ ''..'' @ v)"
proof
  assume "\<exists>u v. body @ ''.pdf'' = u @ ''..'' @ v"
  then obtain u v where eq: "body @ ''.pdf'' = u @ ''..'' @ v" by blast
  have "length (filter (\<lambda>c. c = CHR ''.'') (body @ ''.pdf'')) = 1"
    using assms by (auto simp: filter_empty_conv)
  moreover have "length (filter (\<lambda>c. c = CHR ''.'') (u @ ''..'' @ v)) \<ge> 2"
    by simp
  ultimately show False using eq by simp
qed

lemma join_assets:
  assumes "CHR ''/'' \<notin> set body"
  shows "filepath_Join ''Assets/'' (body @ ''.pdf'') = ''Assets/'' @ body @ ''.pdf''"
proof -
  let ?n = "body @ ''.pdf''"
  have ns: "CHR ''/'' \<notin> set ?n" using assms by simp
  have ne: "?n \<noteq> []" "?n \<noteq> ''.''" "?n \<noteq> ''..''" by simp_all
  have sp: "splitSlash (''Assets//'' @ ?n) = [''Assets'', [], ?n]"
    using splitSlash_no_slash [OF ns] by simp
  have "filepath_Join ''Assets/'' ?n = filepath_Clean (''Assets//'' @ ?n)"
    by (simp add: filepath_Join_def)
  also have "\<dots> = ''Assets/'' @ ?n"
    using ne unfolding filepath_Clean_def sp by (simp add: hasPrefix_def)
  finally show ?thesis .
qed

lemma dir_assets:
  assumes "CHR ''/'' \<notin> set n"
  shows "filepath_Dir (''Assets/'' @ n) = ''Assets''"
proof -
  have "dropWhile (\<lambda>c. c \<noteq> CHR ''/'') (rev n @ ''/stessA'') = ''/stessA''"
    using assms by (subst dropWhile_append2) auto
  then have "rev (dropWhile (\<lambda>c. c \<noteq> CHR ''/'') (rev (''Assets/'' @ n))) = ''Assets/''"
    by simp
  then show ?thesis
    unfolding filepath_Dir_def by (simp add: filepath_Clean_def hasPrefix_def)
qed

text \<open>
  C1 (the code departs from the claim). The sanitizer maps \<open>Sheet A/B (1).PDF\<close> to
  \<open>sheet_a_b_1_pdf.pdf\<close>, not to \<open>sheet_a_b_1.pdf\<close>; it maps \<open>sheet_a_b_1.pdf\<close> to
  \<open>sheet_a_b_1_pdf.pdf\<close> as well, not to itself; and applied to its own output for
  \<open>a\<close> it returns another name.
\<close>

theorem urlToFilename_doubles_extension:
  "urlToFilename ''Sheet A/B (1).PDF'' = ''sheet_a_b_1_pdf.pdf''
   \<and> urlToFilename ''sheet_a_b_1.pdf'' = ''sheet_a_b_1_pdf.pdf''
   \<and> urlToFilename ''a'' = ''a.pdf''
   \<and> urlToFilename (urlToFilename ''a'') = ''a_pdf.pdf''"
  by (simp add: urlToFilename_def sanitizeLowered_def toLower_def lowerChar_def upperLetters_def lowerLetters_def
        digits_def isLowerAlnum_def cutPrefix_def hasPrefix_def getFileExtension_def
        filepath_Ext_def)

text \<open>
  C9. For every input the sanitized name is a string over \<open>[a-z0-9_]\<close> followed by
  \<open>.pdf\<close>; it holds no slash and no \<open>..\<close>; joined to the output directory \<open>Assets/\<close>
  it gives a path directly inside that directory; and its lower-cased extension is on
  the allow-list of the second variant's downloader. This holds for the name computed
  from the raw link, and for the name computed from any string in the place of the
  lower-cased link.
\<close>

theorem urlToFilename_safe_name:
  assumes "name = urlToFilename rawURL \<or> name = sanitizeLowered lower"
  shows "(\<exists>body. name = body @ ''.pdf'' \<and> set body \<subseteq> set safeChars)
   \<and> CHR ''/'' \<notin> set name
   \<and> \<not> (\<exists>u v. name = u @ ''..'' @ v)
   \<and> filepath_Join ''Assets/'' name = ''Assets/'' @ name
   \<and> filepath_Dir (filepath_Join ''Assets/'' name) = ''Assets''
   \<and> extLoop (toLower (filepath_Ext name)) allowedExtensions_v2"
proof -
  have "\<exists>l. name = sanitizeLowered l"
    using assms by (auto simp: urlToFilename_def)
  then obtain body where name: "name = body @ ''.pdf''"
    and body: "set body \<subseteq> set safeChars"
    using sanitized_body by metis
  have dot: "CHR ''.'' \<notin> set body" and slash: "CHR ''/'' \<notin> set body"
    using body safeChars_no_dot safeChars_no_slash by blast+
  have "CHR ''/'' \<notin> set (body @ ''.pdf'')"
    using slash by simp
  moreover have "filepath_Dir (''Assets/'' @ body @ ''.pdf'') = ''Assets''"
    using slash by (intro dir_assets) simp
  ultimately show ?thesis
    unfolding name
    using body no_dotdot [OF dot] join_assets [OF slash] ext_of_pdf [of body] allowed_pdf
    by simp
qed

theorem urlToFilename_safe_name_witness:
  "urlToFilename ''../../etc/Pass wd.PDF'' = ''etc_pass_wd_pdf.pdf''
   \<and> filepath_Join ''Assets/'' (urlToFilename ''../../etc/Pass wd.PDF'')
       = ''Assets/etc_pass_wd_pdf.pdf''
   \<and> filepath_Join ''Assets/'' ''../../etc/Pass wd.PDF'' = ''../etc/Pass wd.PDF''"
proof -
  have v: "urlToFilename ''../../etc/Pass wd.PDF'' = ''etc_pass_wd_pdf.pdf''"
    by (simp add: urlToFilename_def sanitizeLowered_def toLower_def lowerChar_def upperLetters_def
          lowerLetters_def digits_def isLowerAlnum_def cutPrefix_def hasPrefix_def
          getFileExtension_def filepath_Ext_def)
  have raw: "filepath_Join ''Assets/'' ''../../etc/Pass wd.PDF'' = ''../etc/Pass wd.PDF''"
    by (simp add: filepath_Join_def filepath_Clean_def hasPrefix_def)
  show ?thesis
    using urlToFilename_safe_name
            [of "urlToFilename ''../../etc/Pass wd.PDF''" "''../../etc/Pass wd.PDF''"] raw
    unfolding v by simp
qed


section \<open>A failed page fetch\<close>

lemma emit_simps [simp]:
  "files (emit ev w) = files w"
  "requests (emit ev w) = requests w"
  "printed (emit ev w) = printed w @ [ev]"
  by (simp_all add: emit_def)

text \<open>
  C2 (the code departs from the claim). When the request for the page cannot be built,
  the transport fails, the status is not 200 or the body cannot be read, \<open>fetchHTML\<close>
  returns nil, \<open>extractLinks\<close> dereferences it, and both variants of \<open>main\<close> end in a
  panic instead of running on an empty list of links.
\<close>

theorem failed_fetch_panics:
  assumes "newRequestError e baseURL_const \<noteq> None
     \<or> (\<exists>err. clientDo e (requests w) (baseURL_const, browserHeaders) = Inl err)
     \<or> (\<exists>resp. clientDo e (requests w) (baseURL_const, browserHeaders) = Inr resp
            \<and> (StatusCode resp \<noteq> 200 \<or> BodyError resp \<noteq> None))"
  shows "fst (fetchHTML e baseURL_const w) = None
     \<and> extractLinks (fst (fetchHTML e baseURL_const w)) = Inl NilPointerDereference
     \<and> fst (main_v1 e w) = Panicked NilPointerDereference
     \<and> fst (main_v2 e w) = Panicked NilPointerDereference"
proof -
  have "fst (fetchHTML e baseURL_const w) = None"
    using assms
    by (auto simp: fetchHTML_def sendRequest_def html_Parse_def
          split: option.splits sum.splits)
  then obtain w1 where "fetchHTML e baseURL_const w = (None, w1)"
    by (cases "fetchHTML e baseURL_const w") simp
  then show ?thesis
    by (simp add: main_v1_def main_v2_def)
qed

theorem failed_fetch_panics_witness:
  "extractLinks (fst (fetchHTML notFound baseURL_const emptyWorld)) = Inl NilPointerDereference
   \<and> fst (main_v1 notFound emptyWorld) = Panicked NilPointerDereference
   \<and> fst (main_v2 notFound emptyWorld) = Panicked NilPointerDereference"
  using failed_fetch_panics [of notFound emptyWorld] by (simp add: notFound_def)


section \<open>Creating the output directory\<close>

lemma listing_traverse:
  "traverse listingPage [] = [''/MSDS%20Sheets/'', ''a.pdf'', ''b.txt'']"
  by (simp add: listingPage_def)

lemma listing_fetch:
  "fetchHTML listing baseURL_const w =
     (Some listingPage, w\<lparr>requests := requests w @ [(baseURL_const, browserHeaders)]\<rparr>)"
  by (simp add: fetchHTML_def listing_def sendRequest_def html_Parse_def)

lemma listing_filter:
  "filterFiles [''/MSDS%20Sheets/'', ''a.pdf'', ''b.txt''] = [''a.pdf'', ''b.txt'']"
  by (simp add: filterFiles_def hasPrefix_def hasSuffix_def)

lemma listing_names:
  "urlToFilename ''a.pdf'' = ''a_pdf.pdf''"
  "urlToFilename ''b.txt'' = ''b_txt.pdf''"
  by (simp_all add: urlToFilename_def sanitizeLowered_def toLower_def lowerChar_def upperLetters_def
        lowerLetters_def digits_def isLowerAlnum_def cutPrefix_def hasPrefix_def
        getFileExtension_def filepath_Ext_def)

lemma listing_joins:
  "filepath_Join ''Assets/'' ''a_pdf.pdf'' = ''Assets/a_pdf.pdf''"
  "filepath_Join ''Assets/'' ''b_txt.pdf'' = ''Assets/b_txt.pdf''"
  "filepath_Join ''Assets/'' ''a.txt'' = ''Assets/a.txt''"
  "filepath_Join ''Assets/'' ''b.txt'' = ''Assets/b.txt''"
  "filepath_Join ''Assets/'' ''file.pdf'' = ''Assets/file.pdf''"
  by (simp_all add: filepath_Join_def filepath_Clean_def hasPrefix_def)

lemma listing_exts:
  "toLower (filepath_Ext ''a_pdf.pdf'') = ''.pdf''"
  "toLower (filepath_Ext ''b_txt.pdf'') = ''.pdf''"
  "toLower (filepath_Ext ''a.txt'') = ''.txt''"
  "toLower (filepath_Ext ''b.txt'') = ''.txt''"
  "toLower (filepath_Ext ''file.exe'') = ''.exe''"
  "toLower (filepath_Ext ''file.pdf'') = ''.pdf''"
  "toLower (filepath_Ext ''file.html'') = ''.html''"
  by (simp_all add: filepath_Ext_def toLower_def lowerChar_def upperLetters_def
        lowerLetters_def)

lemma gate_values:
  "extLoop ''.exe'' allowedExts_v1"
  "extLoop ''.exe'' allowedExtensions_v2"
  "extLoop ''.txt'' allowedExts_v1"
  "extLoop ''.txt'' allowedExtensions_v2"
  "\<not> extLoop ''.pdf'' allowedExts_v1"
  "extLoop ''.pdf'' allowedExtensions_v2"
  "\<not> extLoop ''.html'' allowedExts_v1"
  "\<not> extLoop ''.html'' allowedExtensions_v2"
  by (simp_all add: allowedExts_v1_def allowedExtensions_v2_def)

lemma blocked_step:
  assumes "files w = [''Assets'' \<mapsto> RegularFile []]"
    and "name = ''a_pdf.pdf'' \<or> name = ''b_txt.pdf''"
  shows "downloadFile_v2 listing b name ''Assets/'' w =
      (Some (''failed to create file Assets/'' @ name @ '': open Assets/'' @ name
               @ '': not a directory''),
       w\<lparr>requests := requests w @ [(b @ name, [])]\<rparr>)"
  using assms
  by (auto simp: downloadFile_v2_def listing_exts gate_values listing_joins fileExists_def
        os_Stat_def lookupClean_def filepath_Clean_def hasPrefix_def http_Get_def
        sendRequest_def listing_def os_Create_def filepath_Dir_def)

lemma blocked_mkdir:
  "directoryExists [''Assets'' \<mapsto> RegularFile []] ''Assets/'' = False"
  "files w = [''Assets'' \<mapsto> RegularFile []] \<Longrightarrow>
     createDirectory ''Assets/'' w = emit (Logged ''mkdir Assets/: file exists'') w"
  by (simp_all add: directoryExists_def os_Stat_def lookupClean_def
        filepath_Clean_def hasPrefix_def createDirectory_def os_Mkdir_def)

lemma blocked_mkdirAll:
  "os_MkdirAll ''Assets/'' [''Assets'' \<mapsto> RegularFile []] =
     (Some (PathError ''mkdir'' ''Assets/'' EEXIST), [''Assets'' \<mapsto> RegularFile []])"
proof -
  have stat: "os_Stat [''Assets'' \<mapsto> RegularFile []] ''Assets/''
                = Inl (PathError ''stat'' ''Assets/'' ENOTDIR)"
    by (simp add: os_Stat_def lookupClean_def filepath_Clean_def hasPrefix_def hasSuffix_def)
  have parent: "mkdirAllParent ''Assets/'' = []"
    by (simp add: mkdirAllParent_def)
  have mkdir: "os_Mkdir ''Assets/'' [''Assets'' \<mapsto> RegularFile []]
                 = Inl (PathError ''mkdir'' ''Assets/'' EEXIST)"
    by (simp add: os_Mkdir_def lookupClean_def filepath_Clean_def hasPrefix_def)
  show ?thesis
    by (subst os_MkdirAll.simps) (simp add: stat parent mkdir mkdirAllFinish_def)
qed

lemma blocked_main_v2:
  "main_v2 listing blockedWorld =
     (Returned,
      downloadLoop_v2 listing baseURL_const ''Assets/'' [''a.pdf'', ''b.txt'']
        (emit (Logged ''mkdir Assets/: file exists'')
           (blockedWorld\<lparr>requests := [(baseURL_const, browserHeaders)]\<rparr>)))"
proof -
  have "files blockedWorld = [''Assets'' \<mapsto> RegularFile []]"
    and "requests blockedWorld = []"
    by (simp_all add: blockedWorld_def)
  then show ?thesis
    by (simp add: main_v2_def Let_def listing_fetch listing_traverse listing_filter
          blocked_mkdir)
qed

text \<open>
  C3 (the code departs from the claim). The second variant never ends by the fatal
  exit. Started where a regular file has the name \<open>Assets\<close>, it logs the failure of
  \<open>os.Mkdir\<close>, requests both files listed on the page, fails to create each local file
  and returns; the first variant, started there, ends by the fatal exit after the
  request for the page alone.
\<close>

theorem mkdir_failure_not_fatal_v2:
  "fst (main_v2 e w) \<noteq> Fatal
   \<and> fst (main_v2 listing blockedWorld) = Returned
   \<and> requests (snd (main_v2 listing blockedWorld)) =
       [(baseURL_const, browserHeaders),
        (baseURL_const @ ''a_pdf.pdf'', []),
        (baseURL_const @ ''b_txt.pdf'', [])]
   \<and> printed (snd (main_v2 listing blockedWorld)) =
       [Logged ''mkdir Assets/: file exists'',
        Stderr ''failed to create file Assets/a_pdf.pdf: open Assets/a_pdf.pdf: not a directory'',
        Stderr ''failed to create file Assets/b_txt.pdf: open Assets/b_txt.pdf: not a directory'']
   \<and> fst (main_v1 listing blockedWorld) = Fatal
   \<and> requests (snd (main_v1 listing blockedWorld)) = [(baseURL_const, browserHeaders)]
   \<and> printed (snd (main_v1 listing blockedWorld)) =
       [Logged ''Failed to create output directory: mkdir Assets/: file exists'']"
proof -
  have never: "fst (main_v2 e w) \<noteq> Fatal"
    by (simp add: main_v2_def Let_def split: prod.splits sum.splits)
  have fs: "files blockedWorld = [''Assets'' \<mapsto> RegularFile []]"
    "requests blockedWorld = []" "printed blockedWorld = []"
    by (simp_all add: blockedWorld_def)
  have v2: "fst (main_v2 listing blockedWorld) = Returned
    \<and> requests (snd (main_v2 listing blockedWorld)) =
       [(baseURL_const, browserHeaders),
        (baseURL_const @ ''a_pdf.pdf'', []),
        (baseURL_const @ ''b_txt.pdf'', [])]
    \<and> printed (snd (main_v2 listing blockedWorld)) =
       [Logged ''mkdir Assets/: file exists'',
        Stderr ''failed to create file Assets/a_pdf.pdf: open Assets/a_pdf.pdf: not a directory'',
        Stderr ''failed to create file Assets/b_txt.pdf: open Assets/b_txt.pdf: not a directory'']"
    unfolding blocked_main_v2 by (simp add: listing_names blocked_step fs report_def)
  have v1: "fst (main_v1 listing blockedWorld) = Fatal
    \<and> requests (snd (main_v1 listing blockedWorld)) = [(baseURL_const, browserHeaders)]
    \<and> printed (snd (main_v1 listing blockedWorld)) =
       [Logged ''Failed to create output directory: mkdir Assets/: file exists'']"
    by (simp add: main_v1_def Let_def listing_fetch listing_traverse listing_filter
          blocked_mkdirAll fs)
  show ?thesis
    using never v2 v1 by blast
qed


section \<open>The downloader\<close>

lemma past_gate_v1:
  assumes "extLoop (toLower (filepath_Ext fileName)) allowedExts_v1"
  shows "(fileExists (files w) (filepath_Join outDir fileName) \<longrightarrow>
           downloadFile_v1 e baseURL fileName outDir w =
             (None, emit (Logged (''File '' @ filepath_Join outDir fileName
                                   @ '' already exists, skipping download.'')) w))
       \<and> (\<not> fileExists (files w) (filepath_Join outDir fileName) \<longrightarrow>
           requests (snd (downloadFile_v1 e baseURL fileName outDir w)) =
             requests w @ [(baseURL @ fileName, [])])"
  using assms
  by (auto simp: downloadFile_v1_def Let_def http_Get_def sendRequest_def
        split: sum.splits option.splits prod.splits)

lemma past_gate_v2:
  assumes "extLoop (toLower (filepath_Ext fileName)) allowedExtensions_v2"
  shows "(fileExists (files w) (filepath_Join outDir fileName) \<longrightarrow>
           downloadFile_v2 e baseURL fileName outDir w =
             (None, emit (Logged (''File '' @ filepath_Join outDir fileName
                                   @ '' already exists, skipping download.'')) w))
       \<and> (\<not> fileExists (files w) (filepath_Join outDir fileName) \<longrightarrow>
           requests (snd (downloadFile_v2 e baseURL fileName outDir w)) =
             requests w @ [(baseURL @ fileName, [])])"
  using assms
  by (auto simp: downloadFile_v2_def Let_def http_Get_def sendRequest_def
        split: sum.splits option.splits prod.splits)

lemma empty_world_has_no_file:
  "fileExists (files emptyWorld) ''Assets/file.pdf'' = False"
  "fileExists (files emptyWorld) ''Assets/a.txt'' = False"
  "fileExists (files emptyWorld) ''Assets/b.txt'' = False"
  "fileExists (files emptyWorld) ''Assets/a_pdf.pdf'' = False"
  "fileExists (files emptyWorld) ''Assets/b_txt.pdf'' = False"
  by (simp_all add: emptyWorld_def fileExists_def os_Stat_def lookupClean_def
        filepath_Clean_def hasPrefix_def)

text \<open>
  C4, as the claim states it, fails for the first variant: its list of extensions has
  no \<open>.pdf\<close>, so \<open>file.pdf\<close> is skipped there without any request.
\<close>

theorem extension_gate_v1_skips_pdf:
  "downloadFile_v1 listing ''http://h/'' ''file.pdf'' ''Assets/'' emptyWorld
     = (None, emit (Logged ''Skipping file.pdf (disallowed extension .pdf)'') emptyWorld)
   \<and> requests (snd (downloadFile_v1 listing ''http://h/'' ''file.pdf'' ''Assets/'' emptyWorld))
       = []"
  by (simp add: downloadFile_v1_def listing_exts gate_values emptyWorld_def)

text \<open>
  C4, amended. \<open>file.exe\<close> passes the extension check of both variants and
  \<open>file.pdf\<close> that of the second variant: unless the local file exists, the request
  for it is made. In the first variant \<open>file.pdf\<close> is skipped. \<open>file.html\<close> is
  skipped in both variants: the result is nil, one line is logged and no request is
  made.
\<close>

theorem extension_gate:
  "(\<not> fileExists (files w) (filepath_Join outDir ''file.exe'') \<longrightarrow>
       requests (snd (downloadFile_v1 e baseURL ''file.exe'' outDir w)) =
         requests w @ [(baseURL @ ''file.exe'', [])]
     \<and> requests (snd (downloadFile_v2 e baseURL ''file.exe'' outDir w)) =
         requests w @ [(baseURL @ ''file.exe'', [])])
   \<and> (\<not> fileExists (files w) (filepath_Join outDir ''file.pdf'') \<longrightarrow>
       requests (snd (downloadFile_v2 e baseURL ''file.pdf'' outDir w)) =
         requests w @ [(baseURL @ ''file.pdf'', [])])
   \<and> downloadFile_v1 e baseURL ''file.pdf'' outDir w =
       (None, emit (Logged ''Skipping file.pdf (disallowed extension .pdf)'') w)
   \<and> downloadFile_v1 e baseURL ''file.html'' outDir w =
       (None, emit (Logged ''Skipping file.html (disallowed extension .html)'') w)
   \<and> downloadFile_v2 e baseURL ''file.html'' outDir w =
       (None, emit (Logged ''Skipping file.html (disallowed extension .html)'') w)
   \<and> requests (snd (downloadFile_v1 e baseURL ''file.html'' outDir w)) = requests w
   \<and> requests (snd (downloadFile_v2 e baseURL ''file.html'' outDir w)) = requests w"
proof -
  have skip:
    "downloadFile_v1 e baseURL ''file.pdf'' outDir w =
       (None, emit (Logged ''Skipping file.pdf (disallowed extension .pdf)'') w)"
    "downloadFile_v1 e baseURL ''file.html'' outDir w =
       (None, emit (Logged ''Skipping file.html (disallowed extension .html)'') w)"
    "downloadFile_v2 e baseURL ''file.html'' outDir w =
       (None, emit (Logged ''Skipping file.html (disallowed extension .html)'') w)"
    by (simp_all add: downloadFile_v1_def downloadFile_v2_def listing_exts gate_values)
  show ?thesis
    using past_gate_v1 [of "''file.exe''" w outDir e baseURL]
      past_gate_v2 [of "''file.exe''" w outDir e baseURL]
      past_gate_v2 [of "''file.pdf''" w outDir e baseURL]
    by (simp add: skip listing_exts gate_values)
qed

theorem extension_gate_witness:
  "requests (snd (downloadFile_v2 listing ''http://h/'' ''file.pdf'' ''Assets/'' emptyWorld))
     = [(''http://h/file.pdf'', [])]
   \<and> requests (snd (downloadFile_v2 listing ''http://h/'' ''file.html'' ''Assets/'' emptyWorld))
     = []"
  using extension_gate [of emptyWorld "''Assets/''" listing "''http://h/''"]
  by (simp add: listing_joins empty_world_has_no_file) (simp add: emptyWorld_def)

text \<open>
  On the three paths the claim names (extension not allowed, local file present, GET
  returning an error) the downloader of either variant leaves the file system as it
  was.
\<close>

lemma untouched_without_response:
  "(\<not> extLoop (toLower (filepath_Ext fileName)) allowedExts_v1
      \<or> fileExists (files w) (filepath_Join outDir fileName)
      \<or> (\<exists>err. clientDo e (requests w) (baseURL @ fileName, []) = Inl err)
    \<longrightarrow> files (snd (downloadFile_v1 e baseURL fileName outDir w)) = files w)
   \<and> (\<not> extLoop (toLower (filepath_Ext fileName)) allowedExtensions_v2
      \<or> fileExists (files w) (filepath_Join outDir fileName)
      \<or> (\<exists>err. clientDo e (requests w) (baseURL @ fileName, []) = Inl err)
    \<longrightarrow> files (snd (downloadFile_v2 e baseURL fileName outDir w)) = files w)"
  by (auto simp: downloadFile_v1_def downloadFile_v2_def Let_def http_Get_def
        sendRequest_def)

lemma errorPage_mkdirAll:
  "os_MkdirAll ''Assets/'' Map.empty = (None, [''Assets'' \<mapsto> Directory])"
proof -
  have stat: "os_Stat Map.empty ''Assets/'' = Inl (PathError ''stat'' ''Assets/'' ENOENT)"
    by (simp add: os_Stat_def lookupClean_def filepath_Clean_def hasPrefix_def)
  have parent: "mkdirAllParent ''Assets/'' = []"
    by (simp add: mkdirAllParent_def)
  have mkdir: "os_Mkdir ''Assets/'' Map.empty = Inr [''Assets'' \<mapsto> Directory]"
    by (simp add: os_Mkdir_def lookupClean_def filepath_Clean_def filepath_Dir_def
          hasPrefix_def)
  show ?thesis
    by (subst os_MkdirAll.simps) (simp add: stat parent mkdir mkdirAllFinish_def)
qed

lemma ready_create:
  "os_Create ''Assets/a.txt'' [''Assets'' \<mapsto> Directory]
     = Inr [''Assets'' \<mapsto> Directory, ''Assets/a.txt'' \<mapsto> RegularFile []]"
  "os_Create ''Assets/a_pdf.pdf'' [''Assets'' \<mapsto> Directory]
     = Inr [''Assets'' \<mapsto> Directory, ''Assets/a_pdf.pdf'' \<mapsto> RegularFile []]"
  by (simp_all add: os_Create_def lookupClean_def filepath_Clean_def filepath_Dir_def
        hasPrefix_def)

lemma ready_has_no_file:
  "fileExists Map.empty ''Assets/a.txt'' = False"
  "fileExists [''Assets'' \<mapsto> Directory] ''Assets/a.txt'' = False"
  "fileExists [''Assets'' \<mapsto> Directory] ''Assets/a_pdf.pdf'' = False"
  by (simp_all add: fileExists_def os_Stat_def lookupClean_def filepath_Clean_def
        hasPrefix_def)

lemma clean_local_paths:
  "filepath_Clean ''Assets/a.txt'' = ''Assets/a.txt''"
  "filepath_Clean ''Assets/a_pdf.pdf'' = ''Assets/a_pdf.pdf''"
  by (simp_all add: filepath_Clean_def hasPrefix_def)

text \<open>
  C10 (the code departs from the claim). The downloader does not look at the status
  of the response. When the server answers the GET for \<open>a.txt\<close> with status 404 and
  an error page, either variant creates \<open>Assets/a.txt\<close>, stores the error page in it,
  prints \<open>Downloaded a.txt\<close> and returns nil. \<open>fetchHTML\<close>, given the same answer,
  tests the status and returns no document.
\<close>

theorem download_stores_error_response:
  "fst (downloadFile_v1 errorPage ''http://h/'' ''a.txt'' ''Assets/'' emptyWorld) = None
   \<and> files (snd (downloadFile_v1 errorPage ''http://h/'' ''a.txt'' ''Assets/'' emptyWorld))
         ''Assets/a.txt'' = Some (RegularFile ''404 page not found'')
   \<and> printed (snd (downloadFile_v1 errorPage ''http://h/'' ''a.txt'' ''Assets/'' emptyWorld))
       = [Stdout ''Downloaded a.txt'']
   \<and> files emptyWorld ''Assets/a.txt'' = None
   \<and> fst (downloadFile_v2 errorPage ''http://h/'' ''a.txt'' ''Assets/'' readyWorld) = None
   \<and> files (snd (downloadFile_v2 errorPage ''http://h/'' ''a.txt'' ''Assets/'' readyWorld))
         ''Assets/a.txt'' = Some (RegularFile ''404 page not found'')
   \<and> printed (snd (downloadFile_v2 errorPage ''http://h/'' ''a.txt'' ''Assets/'' readyWorld))
       = [Stdout ''Downloaded a.txt'']
   \<and> files readyWorld ''Assets/a.txt'' = None
   \<and> fetchHTML errorPage ''http://h/'' emptyWorld
       = (None,
          emit (Logged ''Failed to fetch http://h/: 404 Not Found'')
            (emptyWorld\<lparr>requests := [(''http://h/'', browserHeaders)]\<rparr>))"
proof -
  have v1: "downloadFile_v1 errorPage ''http://h/'' ''a.txt'' ''Assets/'' emptyWorld
      = (None,
         emit (Stdout ''Downloaded a.txt'')
           (emptyWorld
              \<lparr>requests := [(''http://h/a.txt'', [])],
               files := [''Assets'' \<mapsto> Directory,
                         ''Assets/a.txt'' \<mapsto> RegularFile ''404 page not found'']\<rparr>))"
    by (simp add: downloadFile_v1_def Let_def listing_exts gate_values listing_joins
          empty_world_has_no_file http_Get_def sendRequest_def errorPage_def
          emptyWorld_def errorPage_mkdirAll ready_create ready_has_no_file io_Copy_def
          clean_local_paths emit_def)
  have v2: "downloadFile_v2 errorPage ''http://h/'' ''a.txt'' ''Assets/'' readyWorld
      = (None,
         emit (Stdout ''Downloaded a.txt'')
           (readyWorld
              \<lparr>requests := [(''http://h/a.txt'', [])],
               files := [''Assets'' \<mapsto> Directory,
                         ''Assets/a.txt'' \<mapsto> RegularFile ''404 page not found'']\<rparr>))"
    by (simp add: downloadFile_v2_def Let_def listing_exts gate_values listing_joins
          http_Get_def sendRequest_def errorPage_def io_Copy_def clean_local_paths
          readyWorld_def ready_has_no_file ready_create emit_def)
  have page: "fetchHTML errorPage ''http://h/'' emptyWorld
       = (None,
          emit (Logged ''Failed to fetch http://h/: 404 Not Found'')
            (emptyWorld\<lparr>requests := [(''http://h/'', browserHeaders)]\<rparr>))"
    by (simp add: fetchHTML_def errorPage_def sendRequest_def emptyWorld_def)
  show ?thesis
    unfolding v1 v2 page by (simp add: emptyWorld_def readyWorld_def)
qed


section \<open>A directory at the local path\<close>

lemma create_fails_on_directory:
  assumes "os_Stat fs path = Inr Directory"
  shows "\<exists>err. os_Create path fs = Inl err"
proof -
  have "lookupClean fs (filepath_Clean path) = Some Directory"
    using assms by (simp add: os_Stat_def split: option.splits entry.splits if_splits)
  then show ?thesis
    by (simp add: os_Create_def Let_def split: option.splits entry.splits)
qed

lemma mkdirAll_existing:
  assumes "os_Stat fs dir = Inr Directory"
  shows "os_MkdirAll dir fs = (None, fs)"
  using assms by (subst os_MkdirAll.simps) simp

lemma directory_in_the_way_v2:
  assumes "os_Stat (files w) (filepath_Join outDir fileName) = Inr Directory"
    and "extLoop (toLower (filepath_Ext fileName)) allowedExtensions_v2"
  shows "(\<exists>msg. fst (downloadFile_v2 e baseURL fileName outDir w) = Some msg)
     \<and> requests (snd (downloadFile_v2 e baseURL fileName outDir w))
         = requests w @ [(baseURL @ fileName, [])]
     \<and> ((\<exists>resp. clientDo e (requests w) (baseURL @ fileName, []) = Inr resp) \<longrightarrow>
          (\<exists>err. os_Create (filepath_Join outDir fileName) (files w) = Inl err
              \<and> fst (downloadFile_v2 e baseURL fileName outDir w) =
                  Some (''failed to create file '' @ filepath_Join outDir fileName
                          @ '': '' @ errorString err)))"
proof -
  have "\<not> fileExists (files w) (filepath_Join outDir fileName)"
    using assms(1) by (simp add: fileExists_def)
  moreover obtain err where "os_Create (filepath_Join outDir fileName) (files w) = Inl err"
    using create_fails_on_directory [OF assms(1)] by blast
  ultimately show ?thesis
    using assms(2)
    by (auto simp: downloadFile_v2_def Let_def http_Get_def sendRequest_def
          split: sum.splits)
qed

lemma directory_in_the_way_v1:
  assumes "os_Stat (files w) (filepath_Join outDir fileName) = Inr Directory"
    and "extLoop (toLower (filepath_Ext fileName)) allowedExts_v1"
    and "os_Stat (files w) outDir = Inr Directory"
  shows "(\<exists>msg. fst (downloadFile_v1 e baseURL fileName outDir w) = Some msg)
     \<and> requests (snd (downloadFile_v1 e baseURL fileName outDir w))
         = requests w @ [(baseURL @ fileName, [])]
     \<and> ((\<exists>resp. clientDo e (requests w) (baseURL @ fileName, []) = Inr resp) \<longrightarrow>
          (\<exists>err. os_Create (filepath_Join outDir fileName) (files w) = Inl err
              \<and> fst (downloadFile_v1 e baseURL fileName outDir w) =
                  Some (''failed to create file '' @ filepath_Join outDir fileName
                          @ '': '' @ errorString err)))"
proof -
  have "\<not> fileExists (files w) (filepath_Join outDir fileName)"
    using assms(1) by (simp add: fileExists_def)
  moreover obtain err where "os_Create (filepath_Join outDir fileName) (files w) = Inl err"
    using create_fails_on_directory [OF assms(1)] by blast
  ultimately show ?thesis
    using assms(2) mkdirAll_existing [OF assms(3)]
    by (auto simp: downloadFile_v1_def Let_def http_Get_def sendRequest_def
          split: sum.splits)
qed

text \<open>
  C6. When a directory stands at the local path of a target whose extension is allowed,
  \<open>fileExists\<close> is false there, so the file does not count as downloaded: the request
  is made and the download returns an error, not nil. When the request is answered,
  that error is the one of the file-creation step, which fails. (For the first variant
  the output directory is taken to exist, as it does once \<open>main\<close> has created it.)
\<close>

theorem directory_is_not_a_downloaded_file:
  assumes "os_Stat (files w) (filepath_Join outDir fileName) = Inr Directory"
  shows "\<not> fileExists (files w) (filepath_Join outDir fileName)
     \<and> (extLoop (toLower (filepath_Ext fileName)) allowedExtensions_v2 \<longrightarrow>
          (\<exists>msg. fst (downloadFile_v2 e baseURL fileName outDir w) = Some msg)
          \<and> requests (snd (downloadFile_v2 e baseURL fileName outDir w))
              = requests w @ [(baseURL @ fileName, [])]
          \<and> ((\<exists>resp. clientDo e (requests w) (baseURL @ fileName, []) = Inr resp) \<longrightarrow>
               (\<exists>err. os_Create (filepath_Join outDir fileName) (files w) = Inl err
                   \<and> fst (downloadFile_v2 e baseURL fileName outDir w) =
                       Some (''failed to create file '' @ filepath_Join outDir fileName
                               @ '': '' @ errorString err))))
     \<and> (extLoop (toLower (filepath_Ext fileName)) allowedExts_v1
          \<and> os_Stat (files w) outDir = Inr Directory \<longrightarrow>
          (\<exists>msg. fst (downloadFile_v1 e baseURL fileName outDir w) = Some msg)
          \<and> requests (snd (downloadFile_v1 e baseURL fileName outDir w))
              = requests w @ [(baseURL @ fileName, [])]
          \<and> ((\<exists>resp. clientDo e (requests w) (baseURL @ fileName, []) = Inr resp) \<longrightarrow>
               (\<exists>err. os_Create (filepath_Join outDir fileName) (files w) = Inl err
                   \<and> fst (downloadFile_v1 e baseURL fileName outDir w) =
                       Some (''failed to create file '' @ filepath_Join outDir fileName
                               @ '': '' @ errorString err))))"
proof (intro conjI impI)
  show "\<not> fileExists (files w) (filepath_Join outDir fileName)"
    using assms by (simp add: fileExists_def)
qed (use directory_in_the_way_v2 [OF assms, of e baseURL]
         directory_in_the_way_v1 [OF assms, of e baseURL] in blast)+

lemma occupied_stat:
  "os_Stat (files occupiedWorld) ''Assets/b.txt'' = Inr Directory"
  "os_Stat (files occupiedWorld) ''Assets/'' = Inr Directory"
  by (simp_all add: occupiedWorld_def os_Stat_def lookupClean_def filepath_Clean_def
        hasPrefix_def)

lemma occupied_create:
  "os_Create ''Assets/b.txt'' (files occupiedWorld)
     = Inl (PathError ''open'' ''Assets/b.txt'' EISDIR)"
  by (simp add: occupiedWorld_def os_Create_def lookupClean_def filepath_Clean_def
        filepath_Dir_def hasPrefix_def)

theorem directory_is_not_a_downloaded_file_witness:
  "\<not> fileExists (files occupiedWorld) ''Assets/b.txt''
   \<and> fst (downloadFile_v1 listing ''http://h/'' ''b.txt'' ''Assets/'' occupiedWorld)
       = Some ''failed to create file Assets/b.txt: open Assets/b.txt: is a directory''
   \<and> fst (downloadFile_v2 listing ''http://h/'' ''b.txt'' ''Assets/'' occupiedWorld)
       = Some ''failed to create file Assets/b.txt: open Assets/b.txt: is a directory''
   \<and> requests (snd (downloadFile_v2 listing ''http://h/'' ''b.txt'' ''Assets/'' occupiedWorld))
       = [(''http://h/b.txt'', [])]"
proof -
  have resp: "\<exists>resp. clientDo listing (requests occupiedWorld) (''http://h/b.txt'', [])
                = Inr resp"
    by (simp add: listing_def)
  have rq: "requests occupiedWorld = []"
    by (simp add: occupiedWorld_def)
  show ?thesis
    using directory_is_not_a_downloaded_file
            [of occupiedWorld "''Assets/''" "''b.txt''" listing "''http://h/''"] resp
    by (simp add: listing_joins listing_exts gate_values occupied_stat occupied_create rq)
qed



section \<open>Failures inside the download loop\<close>

lemma downloadFile_v1_failure:
  assumes "downloadFile_v1 e b f d w = (Some err, w')"
  shows "printed w' = printed w"
  using assms
  by (auto simp: downloadFile_v1_def Let_def http_Get_def sendRequest_def
        split: if_splits sum.splits option.splits prod.splits)

lemma downloadFile_v2_failure:
  assumes "downloadFile_v2 e b f d w = (Some err, w')"
  shows "printed w' = printed w"
  using assms
  by (auto simp: downloadFile_v2_def Let_def http_Get_def sendRequest_def
        split: if_splits sum.splits option.splits prod.splits)

lemma downloadFile_v1_nil:
  assumes "downloadFile_v1 e b f d w = (None, w')"
  shows "\<exists>msg. printed w' = printed w @ [Logged msg] \<or> printed w' = printed w @ [Stdout msg]"
  using assms
  by (auto simp: downloadFile_v1_def Let_def http_Get_def sendRequest_def
        split: if_splits sum.splits option.splits prod.splits)

lemma downloadFile_v2_nil:
  assumes "downloadFile_v2 e b f d w = (None, w')"
  shows "\<exists>msg. printed w' = printed w @ [Logged msg] \<or> printed w' = printed w @ [Stdout msg]"
  using assms
  by (auto simp: downloadFile_v2_def Let_def http_Get_def sendRequest_def
        split: if_splits sum.splits option.splits prod.splits)

text \<open>Every pass through the loop body prints exactly one line.\<close>

lemma report_v1_one_line:
  "\<exists>ev. printed (report (downloadFile_v1 e b f d w)) = printed w @ [ev]"
proof (cases "downloadFile_v1 e b f d w")
  case (Pair r w')
  then show ?thesis
    using downloadFile_v1_failure [of e b f d w _ w'] downloadFile_v1_nil [of e b f d w w']
    by (cases r) (auto simp: report_def)
qed

lemma report_v2_one_line:
  "\<exists>ev. printed (report (downloadFile_v2 e b f d w)) = printed w @ [ev]"
proof (cases "downloadFile_v2 e b f d w")
  case (Pair r w')
  then show ?thesis
    using downloadFile_v2_failure [of e b f d w _ w'] downloadFile_v2_nil [of e b f d w w']
    by (cases r) (auto simp: report_def)
qed

lemma loop_v1_lines:
  "\<exists>evs. printed (downloadLoop_v1 e b d links w) = printed w @ evs
         \<and> length evs = length links"
proof (induction links arbitrary: w)
  case Nil
  then show ?case by simp
next
  case (Cons f links)
  let ?w1 = "report (downloadFile_v1 e b f d w)"
  obtain ev where first: "printed ?w1 = printed w @ [ev]"
    using report_v1_one_line by blast
  obtain evs where rest: "printed (downloadLoop_v1 e b d links ?w1) = printed ?w1 @ evs"
    and len: "length evs = length links"
    using Cons.IH by blast
  have "printed (downloadLoop_v1 e b d (f # links) w) = printed w @ (ev # evs)"
    using first rest by simp
  then show ?case using len by (metis length_Cons)
qed

lemma loop_v2_lines:
  "\<exists>evs. printed (downloadLoop_v2 e b d links w) = printed w @ evs
         \<and> length evs = length links"
proof (induction links arbitrary: w)
  case Nil
  then show ?case by simp
next
  case (Cons f links)
  let ?w1 = "report (downloadFile_v2 e b (urlToFilename f) d w)"
  obtain ev where first: "printed ?w1 = printed w @ [ev]"
    using report_v2_one_line by blast
  obtain evs where rest: "printed (downloadLoop_v2 e b d links ?w1) = printed ?w1 @ evs"
    and len: "length evs = length links"
    using Cons.IH by blast
  have "printed (downloadLoop_v2 e b d (f # links) w) = printed w @ (ev # evs)"
    using first rest by simp
  then show ?case using len by (metis length_Cons)
qed

lemma loop_v1_append:
  "downloadLoop_v1 e b d (xs @ ys) w = downloadLoop_v1 e b d ys (downloadLoop_v1 e b d xs w)"
  by (induction xs arbitrary: w) simp_all

lemma loop_v2_append:
  "downloadLoop_v2 e b d (xs @ ys) w = downloadLoop_v2 e b d ys (downloadLoop_v2 e b d xs w)"
  by (induction xs arbitrary: w) simp_all

text \<open>
  What the loop body does for each way a download can fail, from what the environment
  answers: the failed request, the failed creation of the output directory (first
  variant), the failed creation of the local file, and the body that breaks off.
\<close>

lemma failures_v1:
  "(extLoop (toLower (filepath_Ext name)) allowedExts_v1
      \<and> \<not> fileExists (files w) (filepath_Join d name) \<longrightarrow>
      (clientDo e (requests w) (b @ name, []) = Inl cause \<longrightarrow>
         report (downloadFile_v1 e b name d w) =
           emit (Stderr (''failed to download '' @ b @ name @ '': '' @ cause))
             (w\<lparr>requests := requests w @ [(b @ name, [])]\<rparr>))
      \<and> (clientDo e (requests w) (b @ name, []) = Inr resp
           \<and> os_MkdirAll d (files w) = (Some err, fs2) \<longrightarrow>
         report (downloadFile_v1 e b name d w) =
           emit (Stderr (''failed to create directory '' @ d @ '': '' @ errorString err))
             (w\<lparr>requests := requests w @ [(b @ name, [])], files := fs2\<rparr>))
      \<and> (clientDo e (requests w) (b @ name, []) = Inr resp
           \<and> os_MkdirAll d (files w) = (None, fs2)
           \<and> os_Create (filepath_Join d name) fs2 = Inl err \<longrightarrow>
         report (downloadFile_v1 e b name d w) =
           emit (Stderr (''failed to create file '' @ filepath_Join d name @ '': ''
                           @ errorString err))
             (w\<lparr>requests := requests w @ [(b @ name, [])], files := fs2\<rparr>))
      \<and> (clientDo e (requests w) (b @ name, []) = Inr resp
           \<and> os_MkdirAll d (files w) = (None, fs2)
           \<and> os_Create (filepath_Join d name) fs2 = Inr fs3
           \<and> BodyError resp = Some cause \<longrightarrow>
         report (downloadFile_v1 e b name d w) =
           emit (Stderr (''error saving '' @ filepath_Join d name @ '': '' @ cause))
             (w\<lparr>requests := requests w @ [(b @ name, [])],
                files := fs3(filepath_Clean (filepath_Join d name)
                               \<mapsto> RegularFile (Body resp))\<rparr>)))"
  by (simp add: downloadFile_v1_def Let_def http_Get_def sendRequest_def report_def
        io_Copy_def)

lemma failures_v2:
  "(extLoop (toLower (filepath_Ext name)) allowedExtensions_v2
      \<and> \<not> fileExists (files w) (filepath_Join d name) \<longrightarrow>
      (clientDo e (requests w) (b @ name, []) = Inl cause \<longrightarrow>
         report (downloadFile_v2 e b name d w) =
           emit (Stderr (''failed to download '' @ b @ name @ '': '' @ cause))
             (w\<lparr>requests := requests w @ [(b @ name, [])]\<rparr>))
      \<and> (clientDo e (requests w) (b @ name, []) = Inr resp
           \<and> os_Create (filepath_Join d name) (files w) = Inl err \<longrightarrow>
         report (downloadFile_v2 e b name d w) =
           emit (Stderr (''failed to create file '' @ filepath_Join d name @ '': ''
                           @ errorString err))
             (w\<lparr>requests := requests w @ [(b @ name, [])]\<rparr>))
      \<and> (clientDo e (requests w) (b @ name, []) = Inr resp
           \<and> os_Create (filepath_Join d name) (files w) = Inr fs3
           \<and> BodyError resp = Some cause \<longrightarrow>
         report (downloadFile_v2 e b name d w) =
           emit (Stderr (''error saving '' @ filepath_Join d name @ '': '' @ cause))
             (w\<lparr>requests := requests w @ [(b @ name, [])],
                files := fs3(filepath_Clean (filepath_Join d name)
                               \<mapsto> RegularFile (Body resp))\<rparr>)))"
  by (simp add: downloadFile_v2_def Let_def http_Get_def sendRequest_def report_def
        io_Copy_def)

text \<open>
  C8. A download of either variant that gets past the extension check and finds no
  local file fails in one of these ways, and the loop body then prints exactly this
  line on standard error: when the GET returns an error, \<open>failed to download\<close> with
  the URL and the cause; when (in the first variant) the output directory cannot be
  made, \<open>failed to create directory\<close> with the directory and the cause; when the local
  file cannot be created, \<open>failed to create file\<close> with the local path and the cause;
  when the body breaks off, \<open>error saving\<close> with the local path and the cause. After
  any link of the list, whatever its download returned, the loop goes on with the
  links after it, from the world the loop body left; over the whole list it prints
  one line for each link.
\<close>

theorem download_failure_reported_loop_goes_on:
  "(extLoop (toLower (filepath_Ext name)) allowedExts_v1
      \<and> \<not> fileExists (files w) (filepath_Join d name) \<longrightarrow>
      (clientDo e (requests w) (b @ name, []) = Inl cause \<longrightarrow>
         report (downloadFile_v1 e b name d w) =
           emit (Stderr (''failed to download '' @ b @ name @ '': '' @ cause))
             (w\<lparr>requests := requests w @ [(b @ name, [])]\<rparr>))
      \<and> (clientDo e (requests w) (b @ name, []) = Inr resp
           \<and> os_MkdirAll d (files w) = (Some err, fs2) \<longrightarrow>
         report (downloadFile_v1 e b name d w) =
           emit (Stderr (''failed to create directory '' @ d @ '': '' @ errorString err))
             (w\<lparr>requests := requests w @ [(b @ name, [])], files := fs2\<rparr>))
      \<and> (clientDo e (requests w) (b @ name, []) = Inr resp
           \<and> os_MkdirAll d (files w) = (None, fs2)
           \<and> os_Create (filepath_Join d name) fs2 = Inl err \<longrightarrow>
         report (downloadFile_v1 e b name d w) =
           emit (Stderr (''failed to create file '' @ filepath_Join d name @ '': ''
                           @ errorString err))
             (w\<lparr>requests := requests w @ [(b @ name, [])], files := fs2\<rparr>))
      \<and> (clientDo e (requests w) (b @ name, []) = Inr resp
           \<and> os_MkdirAll d (files w) = (None, fs2)
           \<and> os_Create (filepath_Join d name) fs2 = Inr fs3
           \<and> BodyError resp = Some cause \<longrightarrow>
         report (downloadFile_v1 e b name d w) =
           emit (Stderr (''error saving '' @ filepath_Join d name @ '': '' @ cause))
             (w\<lparr>requests := requests w @ [(b @ name, [])],
                files := fs3(filepath_Clean (filepath_Join d name)
                               \<mapsto> RegularFile (Body resp))\<rparr>)))
   \<and> (extLoop (toLower (filepath_Ext name)) allowedExtensions_v2
      \<and> \<not> fileExists (files w) (filepath_Join d name) \<longrightarrow>
      (clientDo e (requests w) (b @ name, []) = Inl cause \<longrightarrow>
         report (downloadFile_v2 e b name d w) =
           emit (Stderr (''failed to download '' @ b @ name @ '': '' @ cause))
             (w\<lparr>requests := requests w @ [(b @ name, [])]\<rparr>))
      \<and> (clientDo e (requests w) (b @ name, []) = Inr resp
           \<and> os_Create (filepath_Join d name) (files w) = Inl err \<longrightarrow>
         report (downloadFile_v2 e b name d w) =
           emit (Stderr (''failed to create file '' @ filepath_Join d name @ '': ''
                           @ errorString err))
             (w\<lparr>requests := requests w @ [(b @ name, [])]\<rparr>))
      \<and> (clientDo e (requests w) (b @ name, []) = Inr resp
           \<and> os_Create (filepath_Join d name) (files w) = Inr fs3
           \<and> BodyError resp = Some cause \<longrightarrow>
         report (downloadFile_v2 e b name d w) =
           emit (Stderr (''error saving '' @ filepath_Join d name @ '': '' @ cause))
             (w\<lparr>requests := requests w @ [(b @ name, [])],
                files := fs3(filepath_Clean (filepath_Join d name)
                               \<mapsto> RegularFile (Body resp))\<rparr>)))
   \<and> downloadLoop_v1 e b d (pre @ link # post) w =
       downloadLoop_v1 e b d post
         (report (downloadFile_v1 e b link d (downloadLoop_v1 e b d pre w)))
   \<and> downloadLoop_v2 e b d (pre @ link # post) w =
       downloadLoop_v2 e b d post
         (report (downloadFile_v2 e b (urlToFilename link) d (downloadLoop_v2 e b d pre w)))
   \<and> (\<exists>evs. printed (downloadLoop_v1 e b d links w) = printed w @ evs
            \<and> length evs = length links)
   \<and> (\<exists>evs. printed (downloadLoop_v2 e b d links w) = printed w @ evs
            \<and> length evs = length links)"
  by (intro conjI)
     (rule failures_v1, rule failures_v2,
      simp add: loop_v1_append, simp add: loop_v2_append,
      rule loop_v1_lines, rule loop_v2_lines)

lemma blocked_has_no_file:
  "fileExists [''Assets'' \<mapsto> RegularFile []] ''Assets/a.txt'' = False"
  "fileExists [''Assets'' \<mapsto> RegularFile []] ''Assets/a_pdf.pdf'' = False"
  by (simp_all add: fileExists_def os_Stat_def lookupClean_def filepath_Clean_def
        hasPrefix_def)

lemma blocked_create:
  "os_Create ''Assets/a_pdf.pdf'' [''Assets'' \<mapsto> RegularFile []]
     = Inl (PathError ''open'' ''Assets/a_pdf.pdf'' ENOTDIR)"
  by (simp add: os_Create_def lookupClean_def filepath_Clean_def filepath_Dir_def
        hasPrefix_def)

lemma ready_mkdirAll:
  "os_MkdirAll ''Assets/'' [''Assets'' \<mapsto> Directory] = (None, [''Assets'' \<mapsto> Directory])"
  by (rule mkdirAll_existing)
     (simp add: os_Stat_def lookupClean_def filepath_Clean_def hasPrefix_def)

lemma example_worlds:
  "files emptyWorld = Map.empty" "requests emptyWorld = []" "printed emptyWorld = []"
  "files readyWorld = [''Assets'' \<mapsto> Directory]"
  "requests readyWorld = []" "printed readyWorld = []"
  "files blockedWorld = [''Assets'' \<mapsto> RegularFile []]"
  "requests blockedWorld = []" "printed blockedWorld = []"
  "requests occupiedWorld = []" "printed occupiedWorld = []"
  by (simp_all add: emptyWorld_def readyWorld_def blockedWorld_def occupiedWorld_def)

theorem download_failure_reported_loop_goes_on_witness:
  "printed (downloadLoop_v1 offline ''http://h/'' ''Assets/'' [''a.txt'', ''b.txt''] emptyWorld)
     = [Stderr ''failed to download http://h/a.txt: connection refused'',
        Stderr ''failed to download http://h/b.txt: connection refused'']
   \<and> printed (downloadLoop_v2 offline ''http://h/'' ''Assets/'' [''a.pdf'', ''b.txt''] emptyWorld)
     = [Stderr ''failed to download http://h/a_pdf.pdf: connection refused'',
        Stderr ''failed to download http://h/b_txt.pdf: connection refused'']
   \<and> printed (downloadLoop_v1 listing ''http://h/'' ''Assets/'' [''a.txt''] blockedWorld)
     = [Stderr ''failed to create directory Assets/: mkdir Assets/: file exists'']
   \<and> printed (downloadLoop_v1 listing ''http://h/'' ''Assets/'' [''b.txt''] occupiedWorld)
     = [Stderr ''failed to create file Assets/b.txt: open Assets/b.txt: is a directory'']
   \<and> printed (downloadLoop_v2 listing ''http://h/'' ''Assets/'' [''a.pdf''] blockedWorld)
     = [Stderr ''failed to create file Assets/a_pdf.pdf: open Assets/a_pdf.pdf: not a directory'']
   \<and> printed (downloadLoop_v1 truncating ''http://h/'' ''Assets/'' [''a.txt''] readyWorld)
     = [Stderr ''error saving Assets/a.txt: unexpected EOF'']
   \<and> printed (downloadLoop_v2 truncating ''http://h/'' ''Assets/'' [''a.pdf''] readyWorld)
     = [Stderr ''error saving Assets/a_pdf.pdf: unexpected EOF'']"
proof -
  let ?ok = "\<lparr>Status = ''200 OK'', StatusCode = 200, Body = ''data'', BodyError = None\<rparr>"
  let ?cut = "\<lparr>Status = ''200 OK'', StatusCode = 200, Body = ''da'',
               BodyError = Some ''unexpected EOF''\<rparr>"
  have refused1: "report (downloadFile_v1 offline ''http://h/'' f ''Assets/'' w)
      = emit (Stderr (''failed to download http://h/'' @ f @ '': connection refused''))
          (w\<lparr>requests := requests w @ [(''http://h/'' @ f, [])]\<rparr>)"
    if "files w = Map.empty" and "f = ''a.txt'' \<or> f = ''b.txt''" for f w
    using that download_failure_reported_loop_goes_on
      [where e = offline and b = "''http://h/''" and d = "''Assets/''" and w = w
         and name = f and cause = "''connection refused''"]
    by (auto simp: listing_exts gate_values listing_joins ready_has_no_file offline_def
          fileExists_def os_Stat_def lookupClean_def filepath_Clean_def hasPrefix_def)
  have refused2: "report (downloadFile_v2 offline ''http://h/'' f ''Assets/'' w)
      = emit (Stderr (''failed to download http://h/'' @ f @ '': connection refused''))
          (w\<lparr>requests := requests w @ [(''http://h/'' @ f, [])]\<rparr>)"
    if "files w = Map.empty" and "f = ''a_pdf.pdf'' \<or> f = ''b_txt.pdf''" for f w
    using that download_failure_reported_loop_goes_on
      [where e = offline and b = "''http://h/''" and d = "''Assets/''" and w = w
         and name = f and cause = "''connection refused''"]
    by (auto simp: listing_exts gate_values listing_joins offline_def
          fileExists_def os_Stat_def lookupClean_def filepath_Clean_def hasPrefix_def)
  have nodir: "printed (report (downloadFile_v1 listing ''http://h/'' ''a.txt'' ''Assets/''
                                  blockedWorld))
      = [Stderr ''failed to create directory Assets/: mkdir Assets/: file exists'']"
    using download_failure_reported_loop_goes_on
      [where e = listing and b = "''http://h/''" and d = "''Assets/''" and w = blockedWorld
         and name = "''a.txt''" and resp = ?ok
         and err = "PathError ''mkdir'' ''Assets/'' EEXIST"
         and ?fs2.0 = "[''Assets'' \<mapsto> RegularFile []]"]
    by (simp add: listing_exts gate_values listing_joins example_worlds blocked_has_no_file
          blocked_mkdirAll listing_def)
  have isdir: "printed (report (downloadFile_v1 listing ''http://h/'' ''b.txt'' ''Assets/''
                                  occupiedWorld))
      = [Stderr ''failed to create file Assets/b.txt: open Assets/b.txt: is a directory'']"
    using download_failure_reported_loop_goes_on
      [where e = listing and b = "''http://h/''" and d = "''Assets/''" and w = occupiedWorld
         and name = "''b.txt''" and resp = ?ok
         and err = "PathError ''open'' ''Assets/b.txt'' EISDIR"
         and ?fs2.0 = "files occupiedWorld"]
    by (simp add: listing_exts gate_values listing_joins example_worlds occupied_stat
          occupied_create mkdirAll_existing fileExists_def listing_def)
  have notdir: "printed (report (downloadFile_v2 listing ''http://h/'' ''a_pdf.pdf'' ''Assets/''
                                   blockedWorld))
      = [Stderr ''failed to create file Assets/a_pdf.pdf: open Assets/a_pdf.pdf: not a directory'']"
    using download_failure_reported_loop_goes_on
      [where e = listing and b = "''http://h/''" and d = "''Assets/''" and w = blockedWorld
         and name = "''a_pdf.pdf''" and resp = ?ok
         and err = "PathError ''open'' ''Assets/a_pdf.pdf'' ENOTDIR"]
    by (simp add: listing_exts gate_values listing_joins example_worlds blocked_has_no_file
          blocked_create listing_def)
  have cut1: "printed (report (downloadFile_v1 truncating ''http://h/'' ''a.txt'' ''Assets/''
                                 readyWorld))
      = [Stderr ''error saving Assets/a.txt: unexpected EOF'']"
    using download_failure_reported_loop_goes_on
      [where e = truncating and b = "''http://h/''" and d = "''Assets/''" and w = readyWorld
         and name = "''a.txt''" and resp = ?cut and cause = "''unexpected EOF''"
         and ?fs2.0 = "[''Assets'' \<mapsto> Directory]"
         and ?fs3.0 = "[''Assets'' \<mapsto> Directory, ''Assets/a.txt'' \<mapsto> RegularFile []]"]
    by (simp add: listing_exts gate_values listing_joins example_worlds ready_has_no_file
          ready_mkdirAll ready_create truncating_def)
  have cut2: "printed (report (downloadFile_v2 truncating ''http://h/'' ''a_pdf.pdf'' ''Assets/''
                                 readyWorld))
      = [Stderr ''error saving Assets/a_pdf.pdf: unexpected EOF'']"
    using download_failure_reported_loop_goes_on
      [where e = truncating and b = "''http://h/''" and d = "''Assets/''" and w = readyWorld
         and name = "''a_pdf.pdf''" and resp = ?cut and cause = "''unexpected EOF''"
         and ?fs3.0 = "[''Assets'' \<mapsto> Directory, ''Assets/a_pdf.pdf'' \<mapsto> RegularFile []]"]
    by (simp add: listing_exts gate_values listing_joins example_worlds ready_has_no_file
          ready_create truncating_def)
  show ?thesis
    by (simp add: refused1 refused2 nodir isdir notdir cut1 cut2 listing_names
          example_worlds)
qed

end
